theory Spec2Isabelle
  imports Complex_Main
begin

section \<open>Geometry values\<close>

text \<open>
  The polygon cutter of \<^verbatim>\<open>plugin/polygon_cutter/pc_class.py\<close> works on shapely
  geometries held in the \<^verbatim>\<open>geometry\<close> column of GeoDataFrames. A geometry is one of
  shapely's geometry classes; a coordinate is a pair of numbers (Python floats, taken
  here as exact reals: only their equality is ever used). A polygon is its exterior
  ring and the list of its interior rings.
\<close>

type_synonym coord = "real \<times> real"

type_synonym polygon = "coord list \<times> coord list list"

datatype geom =
    Point coord
  | MultiPoint "coord list"
  | LineString "coord list"
  | LinearRing "coord list"
  | MultiLineString "coord list list"
  | Polygon polygon
  | MultiPolygon "polygon list"
  | GeometryCollection "geom list"

text \<open>The attribute \<^verbatim>\<open>geom_type\<close>: the class name as a Python string.\<close>

fun geom_type :: "geom \<Rightarrow> string" where
  "geom_type (Point c) = ''Point''"
| "geom_type (MultiPoint cs) = ''MultiPoint''"
| "geom_type (LineString cs) = ''LineString''"
| "geom_type (LinearRing cs) = ''LinearRing''"
| "geom_type (MultiLineString ls) = ''MultiLineString''"
| "geom_type (Polygon p) = ''Polygon''"
| "geom_type (MultiPolygon ps) = ''MultiPolygon''"
| "geom_type (GeometryCollection gs) = ''GeometryCollection''"

text \<open>An atomic segment: a line string with exactly two vertices.\<close>

definition two_vertex_line :: "geom \<Rightarrow> bool" where
  "two_vertex_line g = (case g of LineString cs \<Rightarrow> length cs = 2 | _ \<Rightarrow> False)"

section \<open>Exceptions\<close>

text \<open>
  Every \<^verbatim>\<open>raise\<close>, every failing attribute access and every \<^verbatim>\<open>sys.exit()\<close> of the
  source is a value of \<open>error\<close>; a function that can raise returns \<open>error + 'a\<close>.
\<close>

datatype error =
    IOError string
  | KeyError
  | ValueError
  | AttributeError
  | NotImplementedError
  | SystemExit

definition ebind :: "error + 'a \<Rightarrow> ('a \<Rightarrow> error + 'b) \<Rightarrow> error + 'b" where
  "ebind m f = (case m of Inl e \<Rightarrow> Inl e | Inr x \<Rightarrow> f x)"

text \<open>Applying a raising function to each element in order; the first exception wins.\<close>

fun emap :: "('a \<Rightarrow> error + 'b) \<Rightarrow> 'a list \<Rightarrow> error + 'b list" where
  "emap f [] = Inr []"
| "emap f (x # xs) =
     (case f x of
        Inl e \<Rightarrow> Inl e
      | Inr y \<Rightarrow> (case emap f xs of Inl e \<Rightarrow> Inl e | Inr ys \<Rightarrow> Inr (y # ys)))"

section \<open>The external geometry library\<close>

text \<open>
  \<^verbatim>\<open>shapely.ops.linemerge\<close> is called once with a Python list of the cells of a
  geometry column (line 185) and otherwise with one geometry (lines 192, 273).
\<close>

datatype py_lines = PyList "geom option list" | PyGeom geom

text \<open>
  The operations of shapely (GEOS) that the cutter calls are not code of this
  repository. They are parameters of the model: \<^verbatim>\<open>geom.boundary\<close>,
  \<^verbatim>\<open>shapely.ops.linemerge\<close>, \<^verbatim>\<open>shapely.ops.unary_union\<close>,
  \<^verbatim>\<open>shapely.ops.polygonize\<close>, the predicate \<^verbatim>\<open>intersects\<close> of the spatial join
  and \<^verbatim>\<open>geom.area\<close>. So is the rounding of a number to a count of decimals, which
  \<^verbatim>\<open>round(series, 2)\<close> hands to numpy: it is computed in floating point (the product
  of the number and the power of ten is itself rounded to a float before it is rounded
  to an integer), which arithmetic on exact numbers does not reproduce.
\<close>

record geos =
  boundary :: "geom \<Rightarrow> geom"
  linemerge :: "py_lines \<Rightarrow> geom"
  unary_union :: "geom list \<Rightarrow> geom"
  polygonize :: "geom \<Rightarrow> polygon list"
  intersects :: "geom \<Rightarrow> geom \<Rightarrow> bool"
  area :: "geom \<Rightarrow> real"
  np_round :: "real \<Rightarrow> nat \<Rightarrow> real"

text \<open>
  A Python float is a number or NaN. Every comparison with NaN is false.
\<close>

datatype pyfloat = Num real | NaN

definition float_le :: "pyfloat \<Rightarrow> real \<Rightarrow> bool" where
  "float_le x t = (case x of NaN \<Rightarrow> False | Num a \<Rightarrow> a \<le> t)"

definition float_ge :: "pyfloat \<Rightarrow> real \<Rightarrow> bool" where
  "float_ge x t = (case x of NaN \<Rightarrow> False | Num a \<Rightarrow> t \<le> a)"

section \<open>Frames\<close>

text \<open>
  A GeoDataFrame is the list of its rows. The \<^verbatim>\<open>geometry\<close> column is nullable
  (\<open>None\<close> is a missing geometry). The rows of the line network also carry their
  pandas index label, which \<^verbatim>\<open>check_geom\<close> reads; \<^verbatim>\<open>seg_index\<close>, \<^verbatim>\<open>bp_index\<close>,
  \<^verbatim>\<open>line_ints\<close> and \<^verbatim>\<open>split_area\<close> are the columns that \<^verbatim>\<open>PC.__init__\<close> adds.
  Any further attribute columns are the \<open>more\<close> part of a row.
\<close>

record row =
  geometry :: "geom option"

record line_row = row +
  label :: int

record seg_row = line_row +
  seg_index :: nat

record bp_row = row +
  bp_index :: nat

record linked_row = bp_row +
  line_ints :: "nat list"

record frag_row = bp_row +
  split_area :: pyfloat

section \<open>Attribute access on geometries\<close>

text \<open>
  \<^verbatim>\<open>geom.coords\<close> exists for points, line strings and rings; shapely raises
  \<^verbatim>\<open>NotImplementedError\<close> for polygons and for multi-part geometries.
  \<^verbatim>\<open>geom.geoms\<close> exists for the multi-part geometries only.
\<close>

fun coords :: "geom \<Rightarrow> error + coord list" where
  "coords (Point c) = Inr [c]"
| "coords (LineString cs) = Inr cs"
| "coords (LinearRing cs) = Inr cs"
| "coords (MultiPoint cs) = Inl NotImplementedError"
| "coords (MultiLineString ls) = Inl NotImplementedError"
| "coords (Polygon p) = Inl NotImplementedError"
| "coords (MultiPolygon ps) = Inl NotImplementedError"
| "coords (GeometryCollection gs) = Inl NotImplementedError"

fun geoms :: "geom \<Rightarrow> error + geom list" where
  "geoms (MultiPoint cs) = Inr (map Point cs)"
| "geoms (MultiLineString ls) = Inr (map LineString ls)"
| "geoms (MultiPolygon ps) = Inr (map Polygon ps)"
| "geoms (GeometryCollection gs) = Inr gs"
| "geoms (Point c) = Inl AttributeError"
| "geoms (LineString cs) = Inl AttributeError"
| "geoms (LinearRing cs) = Inl AttributeError"
| "geoms (Polygon p) = Inl AttributeError"

section \<open>\<^verbatim>\<open>ToSingleLines\<close> (lines 65 to 114)\<close>

text \<open>
  The expression \<^verbatim>\<open>list(map(LineString, zip(c[:-1], c[1:])))\<close>, which the source
  writes out three times (lines 71, 91 and 109): one line string for each pair of
  consecutive coordinates.
\<close>

definition consecutive_lines :: "coord list \<Rightarrow> geom list" where
  "consecutive_lines c = map (\<lambda>(a, b). LineString [a, b]) (zip (butlast c) (tl c))"

definition MultiLineDevolver :: "geom \<Rightarrow> error + geom list" where
  "MultiLineDevolver m_line_string =
     ebind (geoms m_line_string) (\<lambda>ls.
     ebind (emap (\<lambda>l. ebind (coords l) (\<lambda>c. Inr (consecutive_lines c))) ls) (\<lambda>lls.
     Inr (concat lls)))"

text \<open>
  The result is \<open>None\<close> where the Python function falls off its end (points and
  multipoints); \<^verbatim>\<open>sys.exit()\<close> is \<open>SystemExit\<close>.
\<close>

definition ToSingleLines :: "geos \<Rightarrow> geom \<Rightarrow> error + geom list option" where
  "ToSingleLines ops g =
     (if geom_type g \<notin> set [''MultiPolygon'', ''Polygon'', ''LineString'',
                               ''MultiLineString'', ''Point'', ''MultiPoint'']
      then Inl SystemExit
      else if geom_type g \<in> set [''LineString'', ''MultiLineString''] then
        (if geom_type g = ''MultiLineString''
         then ebind (MultiLineDevolver g) (\<lambda>ls. Inr (Some ls))
         else ebind (coords g) (\<lambda>c. Inr (Some (consecutive_lines c))))
      else if geom_type g \<in> set [''Polygon'', ''MultiPolygon''] then
        (let bounds = boundary ops g in
         if geom_type bounds = ''MultiLineString''
         then ebind (MultiLineDevolver bounds) (\<lambda>ls. Inr (Some ls))
         else (case coords bounds of
                 Inl NotImplementedError \<Rightarrow> Inl SystemExit
               | Inl e \<Rightarrow> Inl e
               | Inr c \<Rightarrow> Inr (Some (consecutive_lines c))))
      else Inr None)"

section \<open>Frame operations of pandas and geopandas\<close>

text \<open>
  \<^verbatim>\<open>GeoDataFrame.explode(index_parts=False)\<close>: a row with a multi-part geometry
  becomes one row per part, each with the row's label and attributes; a row whose
  geometry is missing or has no part keeps its place with a missing geometry (the
  exploded parts are joined back on the index). The frames here have distinct labels.
\<close>

fun get_parts :: "geom \<Rightarrow> geom list" where
  "get_parts (MultiPoint cs) = map Point cs"
| "get_parts (MultiLineString ls) = map LineString ls"
| "get_parts (MultiPolygon ps) = map Polygon ps"
| "get_parts (GeometryCollection gs) = gs"
| "get_parts (Point c) = [Point c]"
| "get_parts (LineString cs) = [LineString cs]"
| "get_parts (LinearRing cs) = [LinearRing cs]"
| "get_parts (Polygon p) = [Polygon p]"

definition explode_row :: "'a row_scheme \<Rightarrow> 'a row_scheme list" where
  "explode_row r =
     (case geometry r of
        None \<Rightarrow> [r]
      | Some g \<Rightarrow>
          (case get_parts g of
             [] \<Rightarrow> [r\<lparr>geometry := None\<rparr>]
           | p # ps \<Rightarrow> map (\<lambda>q. r\<lparr>geometry := Some q\<rparr>) (p # ps)))"

definition explode_geometry :: "'a row_scheme list \<Rightarrow> 'a row_scheme list" where
  "explode_geometry df = concat (map explode_row df)"

text \<open>
  \<^verbatim>\<open>DataFrame.explode('single_lines')\<close> on a column of lists: one row per list
  element; an empty list gives one row with a missing value; a scalar (\<^verbatim>\<open>None\<close>) is
  left as it is. A row is paired with its \<^verbatim>\<open>single_lines\<close> cell.
\<close>

definition explode_cell :: "'r \<times> geom list option \<Rightarrow> ('r \<times> geom option) list" where
  "explode_cell rc =
     (case snd rc of
        None \<Rightarrow> [(fst rc, None)]
      | Some [] \<Rightarrow> [(fst rc, None)]
      | Some (x # xs) \<Rightarrow> map (\<lambda>y. (fst rc, Some y)) (x # xs))"

definition explode_column :: "('r \<times> geom list option) list \<Rightarrow> ('r \<times> geom option) list" where
  "explode_column df = concat (map explode_cell df)"

text \<open>
  \<^verbatim>\<open>SwapGeometry\<close> (lines 117 to 130): the \<^verbatim>\<open>swap_geom\<close> column becomes the
  \<^verbatim>\<open>geometry\<close> column and the original geometry is dropped.
\<close>

definition SwapGeometry :: "('a row_scheme \<times> geom option) list \<Rightarrow> 'a row_scheme list" where
  "SwapGeometry ingdf = map (\<lambda>(r, swap_geom). r\<lparr>geometry := swap_geom\<rparr>) ingdf"

section \<open>\<^verbatim>\<open>check_geom\<close> (lines 133 to 157)\<close>

text \<open>
  \<^verbatim>\<open>input_gdf.geometry[0].geom_type\<close>. On an integer index \<^verbatim>\<open>series[0]\<close> is a
  lookup of the label 0, not of the first position: it raises \<^verbatim>\<open>KeyError\<close> when no
  row has that label. The cell found may be missing (\<^verbatim>\<open>None\<close> has no
  \<^verbatim>\<open>geom_type\<close>). When several rows carry the label the lookup gives a series, and
  testing a series for membership in a list raises \<^verbatim>\<open>ValueError\<close>.
\<close>

definition geom_type_at_0 :: "'a line_row_scheme list \<Rightarrow> error + string" where
  "geom_type_at_0 input_gdf =
     (case filter (\<lambda>r. label r = 0) input_gdf of
        [] \<Rightarrow> Inl KeyError
      | [r] \<Rightarrow> (case geometry r of None \<Rightarrow> Inl AttributeError | Some g \<Rightarrow> Inr (geom_type g))
      | r # r' # rs \<Rightarrow> Inl ValueError)"

text \<open>
  Line 147: the column \<^verbatim>\<open>single_lines\<close> holds \<^verbatim>\<open>ToSingleLines(p)\<close> for the geometry
  \<open>p\<close> of each row; a missing geometry has no \<^verbatim>\<open>geom_type\<close> to read. A row is paired
  with its new cell.
\<close>

definition add_single_lines ::
  "geos \<Rightarrow> 'a row_scheme list \<Rightarrow> error + ('a row_scheme \<times> geom list option) list" where
  "add_single_lines ops df =
     emap (\<lambda>r. case geometry r of
                 None \<Rightarrow> Inl AttributeError
               | Some p \<Rightarrow> ebind (ToSingleLines ops p) (\<lambda>single_lines. Inr (r, single_lines)))
       df"

text \<open>
  The function returns \<open>None\<close> where the Python function falls off its end (the
  geometry at label 0 is none of the six kinds tested).
\<close>

definition check_geom ::
  "geos \<Rightarrow> 'a line_row_scheme list \<Rightarrow> error + 'a line_row_scheme list option" where
  "check_geom ops input_gdf =
     ebind (geom_type_at_0 input_gdf) (\<lambda>t.
       if t \<in> set [''LineString'', ''MultiLineString''] then Inr (Some input_gdf)
       else if t \<in> set [''Polygon'', ''MultiPolygon''] then
         (let exploded = explode_geometry input_gdf in
          ebind (add_single_lines ops exploded) (\<lambda>with_single_lines.
          Inr (Some (SwapGeometry (explode_column with_single_lines)))))
       else if t \<in> set [''Point'', ''MultiPoint'']
       then Inl (IOError ''Shape is not a Polygon or Line'')
       else Inr None)"

text \<open>
  \<^verbatim>\<open>input_gdf.reset_index(inplace=True)\<close>, the first statement of \<^verbatim>\<open>check_geom\<close> in
  \<^verbatim>\<open>scripts/polygon_cutter.py\<close> (line 73), which \<^verbatim>\<open>pc_class.py\<close> has commented out
  (line 136): the rows are labelled anew by position, from 0.
\<close>

definition reset_index :: "'a line_row_scheme list \<Rightarrow> 'a line_row_scheme list" where
  "reset_index df = map (\<lambda>(r, i). r\<lparr>label := int i\<rparr>) (zip df [0 ..< length df])"

section \<open>The segment catalog (lines 268 to 287 of \<^verbatim>\<open>PC.__init__\<close>)\<close>

text \<open>
  Lines 268 to 270: only rows whose \<^verbatim>\<open>geom_type\<close> is \<^verbatim>\<open>LineString\<close> or
  \<^verbatim>\<open>MultiLineString\<close> are kept. The \<^verbatim>\<open>geom_type\<close> of a missing geometry is
  \<^verbatim>\<open>None\<close>, which \<^verbatim>\<open>isin\<close> does not find.
\<close>

definition cell_geom_type :: "geom option \<Rightarrow> string option" where
  "cell_geom_type c = map_option geom_type c"

definition exclude_non_lines :: "'a row_scheme list \<Rightarrow> 'a row_scheme list" where
  "exclude_non_lines line_geom =
     filter (\<lambda>r. cell_geom_type (geometry r) \<in> set [Some ''LineString'', Some ''MultiLineString''])
       line_geom"

text \<open>
  Lines 273 to 275: a \<^verbatim>\<open>MultiLineString\<close> is replaced by its line merge. The lambda
  reads \<^verbatim>\<open>x.geom_type\<close>, which raises on a missing geometry.
\<close>

definition merge_multi_lines :: "geos \<Rightarrow> 'a row_scheme list \<Rightarrow> error + 'a row_scheme list" where
  "merge_multi_lines ops line_geom =
     emap (\<lambda>r. case geometry r of
                 None \<Rightarrow> Inl AttributeError
               | Some x \<Rightarrow>
                   Inr (r\<lparr>geometry :=
                          Some (if geom_type x = ''MultiLineString''
                                then linemerge ops (PyGeom x) else x)\<rparr>))
       line_geom"

text \<open>
  Lines 278 to 285: the rows that are still \<^verbatim>\<open>MultiLineString\<close> are taken out,
  exploded and appended at the end.
\<close>

definition explode_multis :: "'a row_scheme list \<Rightarrow> 'a row_scheme list" where
  "explode_multis line_geom =
     (let multis = filter (\<lambda>r. cell_geom_type (geometry r) = Some ''MultiLineString'') line_geom
      in if length multis > 0
         then filter (\<lambda>r. cell_geom_type (geometry r) \<noteq> Some ''MultiLineString'') line_geom
              @ explode_geometry multis
         else line_geom)"

text \<open>Line 287: \<^verbatim>\<open>seg_index = range(1, len + 1)\<close>, by position.\<close>

definition assign_seg_index :: "line_row list \<Rightarrow> seg_row list" where
  "assign_seg_index line_geom =
     map (\<lambda>(r, i). line_row.extend r (seg_row.fields i))
       (zip line_geom [1 ..< Suc (length line_geom)])"

definition build_seg_index :: "geos \<Rightarrow> line_row list \<Rightarrow> error + seg_row list" where
  "build_seg_index ops line_geom =
     ebind (merge_multi_lines ops (exclude_non_lines line_geom)) (\<lambda>singled.
     Inr (assign_seg_index (explode_multis singled)))"

section \<open>\<^verbatim>\<open>FindIntersects\<close> (lines 160 to 165)\<close>

text \<open>
  \<^verbatim>\<open>gpd.sjoin(left, right, op='intersects')\<close>: the inner join holding one row for
  each pair of a left and a right row whose geometries intersect; rows with a missing
  geometry match nothing. Only which pairs occur, and how often, is used below.
\<close>

definition cells_intersect :: "geos \<Rightarrow> geom option \<Rightarrow> geom option \<Rightarrow> bool" where
  "cells_intersect ops a b =
     (case a of None \<Rightarrow> False
      | Some g \<Rightarrow> (case b of None \<Rightarrow> False | Some h \<Rightarrow> intersects ops g h))"

definition sjoin ::
  "geos \<Rightarrow> 'a row_scheme list \<Rightarrow> 'b row_scheme list \<Rightarrow> ('a row_scheme \<times> 'b row_scheme) list" where
  "sjoin ops left_df right_df =
     concat (map (\<lambda>l. map (Pair l)
                         (filter (\<lambda>r. cells_intersect ops (geometry l) (geometry r)) right_df))
               left_df)"

text \<open>
  The link fields are column names in the source (\<^verbatim>\<open>'bp_index'\<close> and
  \<^verbatim>\<open>'seg_index'\<close> at the only call); here they are the accessors of those columns.
\<close>

definition FindIntersects ::
  "geos \<Rightarrow> bp_row list \<Rightarrow> 'b row_scheme list \<Rightarrow> (bp_row \<Rightarrow> nat) \<Rightarrow> ('b row_scheme \<Rightarrow> nat)
     \<Rightarrow> linked_row list" where
  "FindIntersects ops input_geom search_geometry input_link_field search_link_field =
     (let joined_geom = sjoin ops input_geom search_geometry
      in map (\<lambda>b. bp_row.extend b
                     (linked_row.fields
                        (map (\<lambda>j. search_link_field (snd j))
                           (filter (\<lambda>j. input_link_field (fst j) = input_link_field b)
                              joined_geom))))
           input_geom)"

section \<open>The sliver filter (lines 309 to 312 of \<^verbatim>\<open>PC.__init__\<close>)\<close>

text \<open>
  \<^verbatim>\<open>round(series, 2)\<close> is numpy's rounding to two decimals, applied to each number
  of the series. The area of a missing geometry is NaN, which rounding keeps.
\<close>

definition round2 :: "geos \<Rightarrow> pyfloat \<Rightarrow> pyfloat" where
  "round2 ops x = (case x of NaN \<Rightarrow> NaN | Num a \<Rightarrow> Num (np_round ops a 2))"

definition cell_area :: "geos \<Rightarrow> geom option \<Rightarrow> pyfloat" where
  "cell_area ops c = (case c of None \<Rightarrow> NaN | Some g \<Rightarrow> Num (area ops g))"

text \<open>Line 309.\<close>

definition add_split_area :: "geos \<Rightarrow> bp_row list \<Rightarrow> frag_row list" where
  "add_split_area ops bp =
     map (\<lambda>r. bp_row.extend r (frag_row.fields (round2 ops (cell_area ops (geometry r))))) bp"

text \<open>Line 311: \<^verbatim>\<open>self.slivers\<close>. Line 312: the new \<^verbatim>\<open>self.bp\<close>.\<close>

definition slivers :: "real \<Rightarrow> 'a frag_row_scheme list \<Rightarrow> 'a frag_row_scheme list" where
  "slivers sliver_max_area bp = filter (\<lambda>r. float_le (split_area r) sliver_max_area) bp"

definition bp_kept :: "real \<Rightarrow> 'a frag_row_scheme list \<Rightarrow> 'a frag_row_scheme list" where
  "bp_kept sliver_max_area bp = filter (\<lambda>r. float_ge (split_area r) sliver_max_area) bp"

section \<open>\<^verbatim>\<open>CutPolygon\<close> (lines 168 to 196)\<close>

text \<open>
  \<^verbatim>\<open>cut_field\<close> is a column name in the source (\<^verbatim>\<open>'seg_index'\<close> at the only call);
  here it is the accessor of that column. \<^verbatim>\<open>line_geom[cut_field].isin(cut_indexes)\<close>
  keeps the rows of the catalog, in catalog order, whose identifier is among the linked
  ones. The two guards \<^verbatim>\<open>len(cut_indexes) == 0\<close> and \<^verbatim>\<open>len(cut_indexes) >= 1\<close> of the
  source are complementary, so the second is the \<open>else\<close> branch. The projection of
  the catalog onto the two columns read (line 172) changes nothing the function uses.
\<close>

definition CutPolygon ::
  "geos \<Rightarrow> nat list \<Rightarrow> geom \<Rightarrow> 'a seg_row_scheme list \<Rightarrow> ('a seg_row_scheme \<Rightarrow> nat) \<Rightarrow> geom" where
  "CutPolygon ops intersect_indexes in_geom line_geom cut_field =
     (let cut_indexes = intersect_indexes in
      if length cut_indexes = 0 then in_geom
      else
        (let cutters = filter (\<lambda>r. cut_field r \<in> set cut_indexes) line_geom;
             cut_single = [linemerge ops (PyList (map geometry cutters))];
             cut_single = cut_single @ [boundary ops in_geom];
             cut_single = unary_union ops cut_single;
             cut_single = linemerge ops (PyGeom cut_single);
             polygons = polygonize ops cut_single
         in MultiPolygon polygons))"

subsection \<open>The cut as the specification words it\<close>

text \<open>
  The steps of section 4.4 of the specification, one definition per step, composed in
  the order the specification lists them.
\<close>

definition gather_segments :: "nat list \<Rightarrow> 'a seg_row_scheme list \<Rightarrow> geom option list" where
  "gather_segments linked_segment_ids segment_catalog =
     map geometry (filter (\<lambda>s. seg_index s \<in> set linked_segment_ids) segment_catalog)"

definition line_merge_segments :: "geos \<Rightarrow> geom option list \<Rightarrow> geom" where
  "line_merge_segments ops segs = linemerge ops (PyList segs)"

definition append_boundary :: "geos \<Rightarrow> geom \<Rightarrow> geom \<Rightarrow> geom list" where
  "append_boundary ops building merged = [merged, boundary ops building]"

definition union_lines :: "geos \<Rightarrow> geom list \<Rightarrow> geom" where
  "union_lines ops ls = unary_union ops ls"

definition line_merge_again :: "geos \<Rightarrow> geom \<Rightarrow> geom" where
  "line_merge_again ops u = linemerge ops (PyGeom u)"

definition extract_faces :: "geos \<Rightarrow> geom \<Rightarrow> polygon list" where
  "extract_faces ops g = polygonize ops g"

definition wrap_multi_polygon :: "polygon list \<Rightarrow> geom" where
  "wrap_multi_polygon faces = MultiPolygon faces"

definition cut_steps :: "geos \<Rightarrow> geom \<Rightarrow> nat list \<Rightarrow> 'a seg_row_scheme list \<Rightarrow> geom" where
  "cut_steps ops building_geometry linked_segment_ids segment_catalog =
     wrap_multi_polygon
       (extract_faces ops
         (line_merge_again ops
           (union_lines ops
             (append_boundary ops building_geometry
               (line_merge_segments ops
                 (gather_segments linked_segment_ids segment_catalog))))))"

section \<open>Cutting the buildings (lines 298 to 302 of \<^verbatim>\<open>PC.__init__\<close>)\<close>

text \<open>
  Line 298 applies \<^verbatim>\<open>CutPolygon(x.line_ints, x.geometry, ..., 'seg_index')\<close> to every
  building row. With a missing geometry the function returns it when there is nothing
  to cut and fails on \<^verbatim>\<open>in_geom.boundary\<close> otherwise.
\<close>

definition cut_row :: "geos \<Rightarrow> 'a seg_row_scheme list \<Rightarrow> linked_row \<Rightarrow> error + linked_row" where
  "cut_row ops line_geom x =
     (case geometry x of
        None \<Rightarrow> (if length (line_ints x) = 0 then Inr x else Inl AttributeError)
      | Some g \<Rightarrow>
          Inr (x\<lparr>geometry := Some (CutPolygon ops (line_ints x) g line_geom seg_index)\<rparr>))"

text \<open>
  Lines 300 to 302: the cut results become the geometry column, the multi-polygons are
  exploded into one row per fragment, each with its building's \<^verbatim>\<open>bp_index\<close>, and the
  column \<^verbatim>\<open>line_ints\<close> is dropped.
\<close>

definition cut_buildings ::
  "geos \<Rightarrow> linked_row list \<Rightarrow> 'a seg_row_scheme list \<Rightarrow> error + bp_row list" where
  "cut_buildings ops bp line_geom =
     ebind (emap (cut_row ops line_geom) bp) (\<lambda>cut.
     Inr (map bp_row.truncate (explode_geometry cut)))"

text \<open>
  The quantity of the area-conservation property of the specification: the sum of the
  areas of the fragments of a collection.
\<close>

definition fragments_area :: "geos \<Rightarrow> 'a row_scheme list \<Rightarrow> real" where
  "fragments_area ops rows =
     sum_list (map (\<lambda>r. case geometry r of None \<Rightarrow> 0 | Some g \<Rightarrow> area ops g) rows)"

section \<open>A small geometry library for evaluating the model\<close>

text \<open>
  An instance of the library parameters on which the functions above can be evaluated
  at concrete frames. The boundary of a polygon is its rings (one line string when
  there are no holes); line merging and union collect the line strings they are given
  and join nothing; polygonize returns a given list of faces; two geometries
  intersect when they share a vertex; the area is that of the exterior ring of a
  polygon (shoelace formula) less that of its holes; rounding is that of exact
  numbers, halves to the even neighbour, which is what numpy computes on the whole
  numbers used below.
\<close>

definition round_half_even :: "real \<Rightarrow> int" where
  "round_half_even x =
     (let f = \<lfloor>x\<rfloor>; d = x - of_int f
      in if d < 1 / 2 then f
         else if 1 / 2 < d then f + 1
         else if even f then f else f + 1)"

definition round_decimals :: "real \<Rightarrow> nat \<Rightarrow> real" where
  "round_decimals a d = of_int (round_half_even (a * 10 ^ d)) / 10 ^ d"

definition ring_boundary :: "geom \<Rightarrow> geom" where
  "ring_boundary g =
     (case g of
        Polygon p \<Rightarrow> (if snd p = [] then LineString (fst p) else MultiLineString (fst p # snd p))
      | MultiPolygon ps \<Rightarrow> MultiLineString (concat (map (\<lambda>p. fst p # snd p) ps))
      | _ \<Rightarrow> GeometryCollection [])"

definition lines_of :: "geom \<Rightarrow> coord list list" where
  "lines_of g =
     (case g of
        LineString cs \<Rightarrow> [cs]
      | LinearRing cs \<Rightarrow> [cs]
      | MultiLineString ls \<Rightarrow> ls
      | _ \<Rightarrow> [])"

definition collect_lines :: "py_lines \<Rightarrow> geom" where
  "collect_lines a =
     (case a of
        PyList cells \<Rightarrow>
          MultiLineString (concat (map (\<lambda>c. case c of None \<Rightarrow> [] | Some g \<Rightarrow> lines_of g) cells))
      | PyGeom g \<Rightarrow> g)"

definition vertices :: "geom \<Rightarrow> coord list" where
  "vertices g =
     (case g of
        Point c \<Rightarrow> [c]
      | MultiPoint cs \<Rightarrow> cs
      | LineString cs \<Rightarrow> cs
      | LinearRing cs \<Rightarrow> cs
      | MultiLineString ls \<Rightarrow> concat ls
      | Polygon p \<Rightarrow> fst p @ concat (snd p)
      | MultiPolygon ps \<Rightarrow> concat (map (\<lambda>p. fst p @ concat (snd p)) ps)
      | GeometryCollection gs \<Rightarrow> [])"

definition share_vertex :: "geom \<Rightarrow> geom \<Rightarrow> bool" where
  "share_vertex g h = list_ex (\<lambda>v. v \<in> set (vertices h)) (vertices g)"

definition shoelace :: "coord list \<Rightarrow> real" where
  "shoelace ring =
     \<bar>sum_list (map (\<lambda>(a, b). fst a * snd b - fst b * snd a) (zip (butlast ring) (tl ring)))\<bar> / 2"

definition ring_area :: "geom \<Rightarrow> real" where
  "ring_area g =
     (case g of
        Polygon p \<Rightarrow> shoelace (fst p) - sum_list (map shoelace (snd p))
      | MultiPolygon ps \<Rightarrow>
          sum_list (map (\<lambda>p. shoelace (fst p) - sum_list (map shoelace (snd p))) ps)
      | _ \<Rightarrow> 0)"

definition plain_geos :: "polygon list \<Rightarrow> geos" where
  "plain_geos faces =
     \<lparr>boundary = ring_boundary,
      linemerge = collect_lines,
      unary_union = (\<lambda>gs. MultiLineString (concat (map lines_of gs))),
      polygonize = (\<lambda>g. faces),
      intersects = share_vertex,
      area = ring_area,
      np_round = round_decimals\<rparr>"

text \<open>
  A square building of side 10, its two halves, and the cutting segment through its
  middle.
\<close>

definition square :: geom where
  "square = Polygon ([(0, 0), (10, 0), (10, 10), (0, 10), (0, 0)], [])"

definition left_half :: polygon where
  "left_half = ([(0, 0), (5, 0), (5, 10), (0, 10), (0, 0)], [])"

definition right_half :: polygon where
  "right_half = ([(5, 0), (10, 0), (10, 10), (5, 10), (5, 0)], [])"

definition mid_segment :: seg_row where
  "mid_segment = \<lparr>geometry = Some (LineString [(5, 0), (5, 10)]), label = 0, seg_index = 1\<rparr>"

text \<open>
  A building whose ring encloses no area: polygonization finds no face in its
  boundary and a segment crossing it.
\<close>

definition flat_building :: geom where
  "flat_building = Polygon ([(0, 0), (10, 0), (0, 0)], [])"

text \<open>Rows of a cut-geometry frame, by index label: a bent line, a point, the square
  and a multi-line-string of two parts.\<close>

definition line_at :: "int \<Rightarrow> line_row" where
  "line_at i = \<lparr>geometry = Some (LineString [(0, 0), (5, 5), (10, 0)]), label = i\<rparr>"

definition point_at :: "int \<Rightarrow> line_row" where
  "point_at i = \<lparr>geometry = Some (Point (3, 3)), label = i\<rparr>"

definition square_at :: "int \<Rightarrow> line_row" where
  "square_at i = \<lparr>geometry = Some square, label = i\<rparr>"

definition multi_at :: "int \<Rightarrow> line_row" where
  "multi_at i =
     \<lparr>geometry = Some (MultiLineString [[(0, 0), (1, 1)], [(5, 5), (6, 6), (7, 5)]]), label = i\<rparr>"

text \<open>
  A rectangular fragment of 5 by 4, whose area is exactly the default
  \<^verbatim>\<open>sliver_max_area\<close> of 20.
\<close>

definition threshold_fragment :: bp_row where
  "threshold_fragment =
     \<lparr>geometry = Some (Polygon ([(0, 0), (5, 0), (5, 4), (0, 4), (0, 0)], [])), bp_index = 1\<rparr>"

text \<open>
  The same rectangle as a building that no segment is linked to; and a building of 10
  by 4 with the segment that cuts it into two halves of area 20 each.
\<close>

definition unlinked_threshold_building :: linked_row where
  "unlinked_threshold_building =
     \<lparr>geometry = Some (Polygon ([(0, 0), (5, 0), (5, 4), (0, 4), (0, 0)], [])),
      bp_index = 1, line_ints = []\<rparr>"

definition long_building :: bp_row where
  "long_building =
     \<lparr>geometry = Some (Polygon ([(0, 0), (5, 0), (10, 0), (10, 4), (5, 4), (0, 4), (0, 0)], [])),
      bp_index = 1\<rparr>"

definition west_half :: polygon where
  "west_half = ([(0, 0), (5, 0), (5, 4), (0, 4), (0, 0)], [])"

definition east_half :: polygon where
  "east_half = ([(5, 0), (10, 0), (10, 4), (5, 4), (5, 0)], [])"

definition cut_segment :: seg_row where
  "cut_segment = \<lparr>geometry = Some (LineString [(5, 0), (5, 4)]), label = 0, seg_index = 1\<rparr>"

text \<open>Two buildings and a catalog of three segments, of which the first building meets two.\<close>

definition two_buildings :: "bp_row list" where
  "two_buildings =
     [\<lparr>geometry = Some square, bp_index = 1\<rparr>,
      \<lparr>geometry = Some (Polygon ([(20, 20), (30, 20), (30, 30), (20, 20)], [])), bp_index = 2\<rparr>]"

definition three_segments :: "seg_row list" where
  "three_segments =
     [\<lparr>geometry = Some (LineString [(0, 0), (0, -5)]), label = 0, seg_index = 1\<rparr>,
      \<lparr>geometry = Some (LineString [(50, 50), (60, 60)]), label = 1, seg_index = 2\<rparr>,
      \<lparr>geometry = Some (LineString [(10, 10), (15, 15)]), label = 2, seg_index = 3\<rparr>]"

section \<open>The contract of line merging\<close>

text \<open>
  shapely documents \<^verbatim>\<open>linemerge\<close> as returning a \<^verbatim>\<open>LineString\<close> or a
  \<^verbatim>\<open>MultiLineString\<close>; the merge of lines that exist has at least one part.
\<close>

definition merged_lines :: "geom \<Rightarrow> bool" where
  "merged_lines g =
     (case g of LineString cs \<Rightarrow> True | MultiLineString ls \<Rightarrow> ls \<noteq> [] | _ \<Rightarrow> False)"

definition line_type_cell :: "geom option \<Rightarrow> bool" where
  "line_type_cell c =
     (case c of None \<Rightarrow> False
      | Some g \<Rightarrow> geom_type g \<in> set [''LineString'', ''MultiLineString''])"

text \<open>The same contract and the kind \<^verbatim>\<open>LineString\<close>, on the cells of a geometry column.\<close>

definition merged_cell :: "geom option \<Rightarrow> bool" where
  "merged_cell c = (case c of None \<Rightarrow> False | Some g \<Rightarrow> merged_lines g)"

definition line_string_cell :: "geom option \<Rightarrow> bool" where
  "line_string_cell c = (case c of Some (LineString cs) \<Rightarrow> True | _ \<Rightarrow> False)"

section \<open>Properties\<close>

subsection \<open>Exceptions of the row-wise maps\<close>

lemma emap_Inl: "emap f xs = Inl e \<Longrightarrow> \<exists>x\<in>set xs. f x = Inl e"
  by (induction xs) (auto split: sum.splits)

lemma emap_Inr: "emap f xs = Inr ys \<Longrightarrow> list_all2 (\<lambda>x y. f x = Inr y) xs ys"
  by (induction xs arbitrary: ys) (auto split: sum.splits)

lemma emap_total: "(\<And>x. x \<in> set xs \<Longrightarrow> \<exists>y. f x = Inr y) \<Longrightarrow> \<exists>ys. emap f xs = Inr ys"
  by (induction xs) (fastforce split: sum.splits)+

subsection \<open>\<^verbatim>\<open>CutPolygon\<close>\<close>

text \<open>
  Claim C3. For every building geometry, when the tuple of linked segment identifiers
  is empty, \<^verbatim>\<open>CutPolygon\<close> returns the building geometry itself: the same value, not
  a fragmentation of it, whatever the catalog and the geometry library are.
\<close>

theorem CutPolygon_identity:
  "CutPolygon ops [] in_geom line_geom cut_field = in_geom"
  by (simp add: CutPolygon_def)

text \<open>
  Claim C7. For every building geometry with a non-empty tuple of linked segment
  identifiers, \<^verbatim>\<open>CutPolygon\<close> is the composition of the steps of the specification
  in their order: gather the referenced segment geometries, line-merge them, append the
  building's boundary, take the union of these lines, line-merge the union, polygonize,
  and wrap the faces into one multi-polygon.
\<close>

theorem CutPolygon_steps:
  "intersect_indexes \<noteq> [] \<Longrightarrow>
   CutPolygon ops intersect_indexes in_geom line_geom seg_index
     = cut_steps ops in_geom intersect_indexes line_geom"
  by (simp add: CutPolygon_def cut_steps_def gather_segments_def line_merge_segments_def
      append_boundary_def union_lines_def line_merge_again_def extract_faces_def
      wrap_multi_polygon_def)

text \<open>
  The square building cut by the segment through its middle, with a library whose
  polygonization finds the two halves.
\<close>

theorem CutPolygon_steps_witness:
  "[1::nat] \<noteq> [] \<and>
   CutPolygon (plain_geos [left_half, right_half]) [1] square [mid_segment] seg_index
     = cut_steps (plain_geos [left_half, right_half]) square [1] [mid_segment] \<and>
   cut_steps (plain_geos [left_half, right_half]) square [1] [mid_segment]
     = MultiPolygon [left_half, right_half]"
  using CutPolygon_steps [of "[1]" "plain_geos [left_half, right_half]" square "[mid_segment]"]
  by (simp add: cut_steps_def extract_faces_def wrap_multi_polygon_def plain_geos_def)

text \<open>
  Claim C6, as amended. For every building with at least one linked segment, if
  polygonization yields zero faces, \<^verbatim>\<open>CutPolygon\<close> returns the empty multi-polygon:
  an ordinary return value, not an error, and not the building's input geometry.
\<close>

theorem CutPolygon_no_faces:
  "intersect_indexes \<noteq> [] \<Longrightarrow>
   polygonize ops
     (linemerge ops (PyGeom (unary_union ops
        [linemerge ops (PyList (map geometry
           (filter (\<lambda>r. cut_field r \<in> set intersect_indexes) line_geom))),
         boundary ops in_geom]))) = [] \<Longrightarrow>
   CutPolygon ops intersect_indexes in_geom line_geom cut_field = MultiPolygon []"
  by (simp add: CutPolygon_def)

text \<open>
  Claim C6 as stated fails. The flat building has one linked segment and
  polygonization finds no face; the cut returns the empty multi-polygon, which is
  neither an error nor the input geometry.
\<close>

theorem CutPolygon_no_faces_counterexample:
  "polygonize (plain_geos [])
     (linemerge (plain_geos []) (PyGeom (unary_union (plain_geos [])
        [linemerge (plain_geos []) (PyList (map geometry [mid_segment])),
         boundary (plain_geos []) flat_building]))) = [] \<and>
   CutPolygon (plain_geos []) [1] flat_building [mid_segment] seg_index = MultiPolygon [] \<and>
   CutPolygon (plain_geos []) [1] flat_building [mid_segment] seg_index \<noteq> flat_building"
  by (simp add: CutPolygon_def plain_geos_def flat_building_def mid_segment_def)

text \<open>
  The amended claim at the flat building.
\<close>

theorem CutPolygon_no_faces_witness:
  "[1::nat] \<noteq> [] \<and>
   polygonize (plain_geos [])
     (linemerge (plain_geos []) (PyGeom (unary_union (plain_geos [])
        [linemerge (plain_geos []) (PyList (map geometry
           (filter (\<lambda>r. seg_index r \<in> set [1]) [mid_segment]))),
         boundary (plain_geos []) flat_building]))) = [] \<and>
   CutPolygon (plain_geos []) [1] flat_building [mid_segment] seg_index = MultiPolygon []"
proof -
  have n: "[1::nat] \<noteq> []" by simp
  have z: "polygonize (plain_geos [])
     (linemerge (plain_geos []) (PyGeom (unary_union (plain_geos [])
        [linemerge (plain_geos []) (PyList (map geometry
           (filter (\<lambda>r. seg_index r \<in> set [1]) [mid_segment]))),
         boundary (plain_geos []) flat_building]))) = []"
    by (simp add: plain_geos_def)
  from CutPolygon_no_faces [OF n z] n z show ?thesis by blast
qed

subsection \<open>\<^verbatim>\<open>ToSingleLines\<close> and \<^verbatim>\<open>MultiLineDevolver\<close>\<close>

lemma consecutive_lines_two:
  "l \<in> set (consecutive_lines c) \<Longrightarrow> two_vertex_line l"
  by (auto simp: consecutive_lines_def two_vertex_line_def)

lemma geom_type_MultiLineString: "geom_type g = ''MultiLineString'' \<Longrightarrow> \<exists>ls. g = MultiLineString ls"
  by (cases g) simp_all

lemma geom_type_LineString: "geom_type g = ''LineString'' \<Longrightarrow> \<exists>cs. g = LineString cs"
  by (cases g) simp_all

lemma devolve_parts:
  "emap (\<lambda>l. case coords l of Inl e \<Rightarrow> Inl e | Inr c \<Rightarrow> Inr (consecutive_lines c))
     (map LineString ls)
     = Inr (map consecutive_lines ls)"
  by (induction ls) simp_all

lemma MultiLineDevolver_MultiLineString:
  "MultiLineDevolver (MultiLineString ls) = Inr (concat (map consecutive_lines ls))"
  by (simp add: MultiLineDevolver_def ebind_def devolve_parts)

lemma ToSingleLines_two:
  assumes "ToSingleLines ops g = Inr (Some ls)" and "l \<in> set ls"
  shows "two_vertex_line l"
proof (cases "geom_type g = ''MultiLineString''")
  case True
  then obtain m where "g = MultiLineString m" using geom_type_MultiLineString by blast
  with assms show ?thesis
    by (auto simp: ToSingleLines_def MultiLineDevolver_MultiLineString ebind_def
        dest: consecutive_lines_two)
next
  case nm: False
  show ?thesis
  proof (cases "geom_type g = ''LineString''")
    case True
    then obtain cs where "g = LineString cs" using geom_type_LineString by blast
    with assms show ?thesis
      by (auto simp: ToSingleLines_def ebind_def dest: consecutive_lines_two)
  next
    case nl: False
    show ?thesis
    proof (cases "geom_type g \<in> set [''Polygon'', ''MultiPolygon'']")
      case True
      show ?thesis
      proof (cases "geom_type (boundary ops g) = ''MultiLineString''")
        case bm: True
        then obtain m where "boundary ops g = MultiLineString m"
          using geom_type_MultiLineString by blast
        with assms True nm nl bm show ?thesis
          by (auto simp: ToSingleLines_def MultiLineDevolver_MultiLineString ebind_def Let_def
              dest: consecutive_lines_two split: if_splits)
      next
        case False
        with assms True nm nl show ?thesis
          by (auto simp: ToSingleLines_def ebind_def Let_def
              dest: consecutive_lines_two split: if_splits sum.splits error.splits)
      qed
    next
      case False
      with assms nm nl show ?thesis
        by (auto simp: ToSingleLines_def split: if_splits)
    qed
  qed
qed

lemma coords_error: "coords x = Inl e \<Longrightarrow> e = NotImplementedError"
  by (cases x) auto

lemma geoms_error: "geoms x = Inl e \<Longrightarrow> e = AttributeError"
  by (cases x) auto

lemma MultiLineDevolver_errors:
  assumes "MultiLineDevolver g = Inl e"
  shows "e = AttributeError \<or> e = NotImplementedError"
proof (cases "geoms g")
  case (Inl e')
  with assms show ?thesis
    by (auto simp: MultiLineDevolver_def ebind_def dest: geoms_error)
next
  case (Inr ls)
  with assms have
    "emap (\<lambda>l. case coords l of Inl e \<Rightarrow> Inl e | Inr c \<Rightarrow> Inr (consecutive_lines c)) ls = Inl e"
    by (auto simp: MultiLineDevolver_def ebind_def split: sum.splits)
  from emap_Inl [OF this] obtain l where
    l: "(case coords l of Inl e \<Rightarrow> Inl e | Inr c \<Rightarrow> Inr (consecutive_lines c)) = Inl e"
    by blast
  then show ?thesis
    by (cases "coords l") (auto dest: coords_error)
qed

lemma ToSingleLines_errors:
  assumes a: "ToSingleLines ops g = Inl e"
  shows "e = SystemExit"
proof (cases "geom_type g = ''MultiLineString''")
  case True
  then obtain m where "g = MultiLineString m" using geom_type_MultiLineString by blast
  with a show ?thesis
    by (simp add: ToSingleLines_def MultiLineDevolver_MultiLineString ebind_def)
next
  case nm: False
  show ?thesis
  proof (cases "geom_type g = ''LineString''")
    case True
    then obtain cs where "g = LineString cs" using geom_type_LineString by blast
    with a show ?thesis
      by (simp add: ToSingleLines_def ebind_def)
  next
    case nl: False
    show ?thesis
    proof (cases "geom_type (boundary ops g) = ''MultiLineString''")
      case bm: True
      then obtain m where "boundary ops g = MultiLineString m"
        using geom_type_MultiLineString by blast
      with a nm nl bm show ?thesis
        by (auto simp: ToSingleLines_def MultiLineDevolver_MultiLineString ebind_def Let_def
            split: if_splits)
    next
      case False
      with a nm nl show ?thesis
        by (auto simp: ToSingleLines_def ebind_def Let_def
            split: if_splits sum.splits error.splits dest: coords_error)
    qed
  qed
qed

lemma ToSingleLines_total_lines:
  assumes "geom_type g \<in> set [''LineString'', ''MultiLineString'']"
  shows "\<exists>ls. ToSingleLines ops g = Inr (Some ls)"
proof (cases "geom_type g = ''MultiLineString''")
  case True
  then obtain m where "g = MultiLineString m" using geom_type_MultiLineString by blast
  then show ?thesis
    by (simp add: ToSingleLines_def MultiLineDevolver_MultiLineString ebind_def)
next
  case False
  with assms have "geom_type g = ''LineString''" by simp
  then obtain cs where "g = LineString cs" using geom_type_LineString by blast
  then show ?thesis
    by (simp add: ToSingleLines_def ebind_def)
qed

lemma ToSingleLines_total:
  assumes "geom_type g \<in> set [''Polygon'', ''MultiPolygon'']"
    and "geom_type (boundary ops g) \<in> set [''LineString'', ''MultiLineString'']"
  shows "\<exists>ls. ToSingleLines ops g = Inr (Some ls)"
proof (cases "geom_type (boundary ops g) = ''MultiLineString''")
  case True
  then obtain m where "boundary ops g = MultiLineString m"
    using geom_type_MultiLineString by blast
  with assms True show ?thesis
    by (auto simp: ToSingleLines_def MultiLineDevolver_MultiLineString ebind_def Let_def)
next
  case False
  with assms(2) obtain cs where "boundary ops g = LineString cs"
    using geom_type_LineString by auto
  with assms False show ?thesis
    by (auto simp: ToSingleLines_def ebind_def Let_def)
qed

subsection \<open>\<^verbatim>\<open>check_geom\<close>\<close>

lemma geom_type_at_0_single:
  "filter (\<lambda>r. label r = 0) input_gdf = [r0] \<Longrightarrow> geometry r0 = Some g \<Longrightarrow>
   geom_type_at_0 input_gdf = Inr (geom_type g)"
  by (simp add: geom_type_at_0_def)

lemma add_single_lines_errors:
  fixes df :: "'a row_scheme list"
  assumes "add_single_lines ops df = Inl e"
  shows "e = AttributeError \<or> e = SystemExit"
proof -
  from assms obtain r :: "'a row_scheme" where
    "(case geometry r of None \<Rightarrow> Inl AttributeError
      | Some p \<Rightarrow> ebind (ToSingleLines ops p) (\<lambda>single_lines. Inr (r, single_lines))) = Inl e"
    unfolding add_single_lines_def by (blast dest: emap_Inl)
  then show ?thesis
    by (auto simp: ebind_def split: option.splits sum.splits dest: ToSingleLines_errors)
qed

lemma check_geom_polygon:
  assumes "geom_type_at_0 input_gdf = Inr t" and "t \<in> set [''Polygon'', ''MultiPolygon'']"
  shows "check_geom ops input_gdf =
           (case add_single_lines ops (explode_geometry input_gdf) of
              Inl e \<Rightarrow> Inl e
            | Inr w \<Rightarrow> Inr (Some (SwapGeometry (explode_column w))))"
  using assms by (auto simp: check_geom_def ebind_def)

text \<open>
  Claim C4, as amended. When the record of the cut geometry with index label 0 is a
  point or a multipoint, \<^verbatim>\<open>check_geom\<close> raises
  \<^verbatim>\<open>IOError('Shape is not a Polygon or Line')\<close>: the result of the whole conversion
  is that exception, and no record of the collection is converted.
\<close>

theorem check_geom_point_raises:
  assumes "filter (\<lambda>r. label r = 0) input_gdf = [r0]"
    and "geometry r0 = Some g"
    and "geom_type g \<in> set [''Point'', ''MultiPoint'']"
  shows "check_geom ops input_gdf = Inl (IOError ''Shape is not a Polygon or Line'')"
  using assms by (cases g) (simp_all add: check_geom_def geom_type_at_0_def ebind_def)

text \<open>
  Claim C4 as stated fails. With a point at label 0 the conversion of the whole
  collection raises, the line record included; with the point elsewhere no error is
  raised for it at all.
\<close>

theorem check_geom_point_raises_counterexample:
  "check_geom (plain_geos []) [point_at 0, line_at 1]
     = Inl (IOError ''Shape is not a Polygon or Line'') \<and>
   check_geom (plain_geos []) [line_at 0, point_at 1] = Inr (Some [line_at 0, point_at 1])"
  by (simp add: check_geom_def geom_type_at_0_def ebind_def point_at_def line_at_def)

text \<open>
  The amended claim at a collection of a point, a line and a polygon.
\<close>

theorem check_geom_point_raises_witness:
  "filter (\<lambda>r. label r = 0) [point_at 0, line_at 1, square_at 2] = [point_at 0] \<and>
   geometry (point_at 0) = Some (Point (3, 3)) \<and>
   geom_type (Point (3, 3)) \<in> set [''Point'', ''MultiPoint''] \<and>
   check_geom (plain_geos []) [point_at 0, line_at 1, square_at 2]
     = Inl (IOError ''Shape is not a Polygon or Line'')"
proof -
  have f: "filter (\<lambda>r. label r = 0) [point_at 0, line_at 1, square_at 2] = [point_at 0]"
    by (simp add: point_at_def line_at_def square_at_def)
  have g: "geometry (point_at 0) = Some (Point (3, 3))"
    by (simp add: point_at_def)
  have t: "geom_type (Point (3, 3)) \<in> set [''Point'', ''MultiPoint'']"
    by simp
  from check_geom_point_raises [OF f g t, of "plain_geos []"] f g t show ?thesis
    by blast
qed

text \<open>
  Claim C9 fails on the code. The cut geometry reaches \<^verbatim>\<open>check_geom\<close> filtered
  (line 218) and not relabelled, so a collection of lines whose row 0 was filtered out
  is labelled from 1: its first geometry is a \<^verbatim>\<open>LineString\<close>, yet the collection is
  not returned, since the lookup \<^verbatim>\<open>geometry[0]\<close> raises \<^verbatim>\<open>KeyError\<close>. Relabelled
  first, as \<^verbatim>\<open>scripts/polygon_cutter.py\<close> does, the same collection is returned.
\<close>

theorem check_geom_lines_KeyError:
  "check_geom (plain_geos []) [line_at 1, line_at 2] = Inl KeyError \<and>
   check_geom (plain_geos []) (reset_index [line_at 1, line_at 2])
     = Inr (Some [line_at 0, line_at 1])"
  by (simp add: check_geom_def geom_type_at_0_def ebind_def line_at_def reset_index_def)

text \<open>
  The dispatch on a frame that holds exactly one record labelled 0, as a frame does
  whose first row has not been filtered out. When that record is a \<^verbatim>\<open>LineString\<close> or
  \<^verbatim>\<open>MultiLineString\<close>, the entire collection is returned unchanged, whatever the
  geometry types of the other records; and the point/multipoint \<^verbatim>\<open>IOError\<close> is
  raised exactly when that record is a point or a multipoint.
\<close>

theorem check_geom_dispatch:
  assumes "filter (\<lambda>r. label r = 0) input_gdf = [r0]"
    and "geometry r0 = Some g"
  shows "(geom_type g \<in> set [''LineString'', ''MultiLineString'']
            \<longrightarrow> check_geom ops input_gdf = Inr (Some input_gdf)) \<and>
         ((\<exists>msg. check_geom ops input_gdf = Inl (IOError msg))
            \<longleftrightarrow> geom_type g \<in> set [''Point'', ''MultiPoint''])"
proof -
  note t0 = geom_type_at_0_single [OF assms]
  show ?thesis
  proof (intro conjI impI iffI)
    assume "geom_type g \<in> set [''LineString'', ''MultiLineString'']"
    with t0 show "check_geom ops input_gdf = Inr (Some input_gdf)"
      by (auto simp: check_geom_def ebind_def)
  next
    assume "geom_type g \<in> set [''Point'', ''MultiPoint'']"
    with t0 show "\<exists>msg. check_geom ops input_gdf = Inl (IOError msg)"
      by (cases g) (simp_all add: check_geom_def ebind_def)
  next
    assume "\<exists>msg. check_geom ops input_gdf = Inl (IOError msg)"
    then obtain msg where m: "check_geom ops input_gdf = Inl (IOError msg)" by blast
    show "geom_type g \<in> set [''Point'', ''MultiPoint'']"
    proof (cases "geom_type g \<in> set [''Polygon'', ''MultiPolygon'']")
      case True
      from m check_geom_polygon [OF t0 True, of ops]
      have "add_single_lines ops (explode_geometry input_gdf) = Inl (IOError msg)"
        by (auto split: sum.splits)
      from add_single_lines_errors [OF this] show ?thesis by simp
    next
      case False
      with t0 m show ?thesis
        by (auto simp: check_geom_def ebind_def split: if_splits)
    qed
  qed
qed

text \<open>
  The record inspected is the one labelled 0 and not the first one. A collection
  whose first record is a line labelled 1 is not returned: the lookup of label 0 raises
  \<^verbatim>\<open>KeyError\<close>; and with a point labelled 0 behind it, the point error is raised
  although the first record is a line.
\<close>

theorem check_geom_dispatch_by_label:
  "check_geom (plain_geos []) [line_at 1, square_at 2] = Inl KeyError \<and>
   check_geom (plain_geos []) [line_at 1, point_at 0]
     = Inl (IOError ''Shape is not a Polygon or Line'')"
  by (simp add: check_geom_def geom_type_at_0_def ebind_def point_at_def line_at_def
      square_at_def)

text \<open>
  A collection whose record labelled 0 is a line, followed by a point and a polygon.
\<close>

theorem check_geom_dispatch_example:
  "filter (\<lambda>r. label r = 0) [line_at 0, point_at 1, square_at 2] = [line_at 0] \<and>
   geometry (line_at 0) = Some (LineString [(0, 0), (5, 5), (10, 0)]) \<and>
   check_geom (plain_geos []) [line_at 0, point_at 1, square_at 2]
     = Inr (Some [line_at 0, point_at 1, square_at 2]) \<and>
   \<not> (\<exists>msg. check_geom (plain_geos []) [line_at 0, point_at 1, square_at 2]
          = Inl (IOError msg))"
proof -
  have f: "filter (\<lambda>r. label r = 0) [line_at 0, point_at 1, square_at 2] = [line_at 0]"
    by (simp add: point_at_def line_at_def square_at_def)
  have g: "geometry (line_at 0) = Some (LineString [(0, 0), (5, 5), (10, 0)])"
    by (simp add: line_at_def)
  from check_geom_dispatch [OF f g, of "plain_geos []"] f g show ?thesis
    by simp
qed

lemma explode_cell_Some:
  "explode_cell (a, Some (x # xs)) = map (\<lambda>y. (a, Some y)) (x # xs)"
  by (simp add: explode_cell_def)

lemma explode_cell_empty:
  "explode_cell (a, Some []) = [(a, None)]" "explode_cell (a, None) = [(a, None)]"
  by (simp_all add: explode_cell_def)

lemma explode_cell_cells:
  assumes m: "(r, Some h) \<in> set (explode_cell rc)"
  shows "\<exists>ls. rc = (r, Some ls) \<and> h \<in> set ls"
proof (cases rc)
  case (Pair a c)
  show ?thesis
  proof (cases c)
    case None
    with Pair m show ?thesis by (simp add: explode_cell_empty)
  next
    case (Some ls)
    show ?thesis
    proof (cases ls)
      case Nil
      with Pair Some m show ?thesis by (simp add: explode_cell_empty)
    next
      case (Cons x xs)
      from m have "(r, Some h) \<in> set (map (\<lambda>y. (a, Some y)) (x # xs))"
        unfolding Pair Some Cons explode_cell_Some .
      then have "r = a" and "h \<in> set (x # xs)" by auto
      then show ?thesis unfolding Pair Some Cons by blast
    qed
  qed
qed

lemma explode_column_cells:
  assumes "(r, Some h) \<in> set (explode_column w)"
  shows "\<exists>ls. (r, Some ls) \<in> set w \<and> h \<in> set ls"
proof -
  from assms obtain rc where rc: "rc \<in> set w" and "(r, Some h) \<in> set (explode_cell rc)"
    by (auto simp: explode_column_def)
  from explode_cell_cells [OF this(2)] rc show ?thesis by blast
qed

lemma add_single_lines_cells:
  fixes df :: "'a row_scheme list"
  assumes "add_single_lines ops df = Inr w" and "(r, Some ls) \<in> set w"
  shows "\<exists>p. ToSingleLines ops p = Inr (Some ls)"
proof -
  from assms(1) have
    "list_all2 (\<lambda>x y. (case geometry x of None \<Rightarrow> Inl AttributeError
        | Some p \<Rightarrow> ebind (ToSingleLines ops p) (\<lambda>single_lines. Inr (x, single_lines))) = Inr y)
       df w"
    unfolding add_single_lines_def by (rule emap_Inr)
  with assms(2) obtain x :: "'a row_scheme" where
    "(case geometry x of None \<Rightarrow> Inl AttributeError
        | Some p \<Rightarrow> ebind (ToSingleLines ops p) (\<lambda>single_lines. Inr (x, single_lines)))
       = Inr (r, Some ls)"
    by (auto simp: list_all2_conv_all_nth in_set_conv_nth)
  then show ?thesis
    by (auto simp: ebind_def split: option.splits sum.splits)
qed

lemma SwapGeometry_rows:
  "r \<in> set (SwapGeometry x) \<Longrightarrow> \<exists>r0. (r0, geometry r) \<in> set x"
  by (auto simp: SwapGeometry_def)

text \<open>
  Claim C5, as amended. Every line string that \<^verbatim>\<open>ToSingleLines\<close> produces has
  exactly two vertices, for any geometry; it does produce them for a line string, a
  multi-line-string, and a polygon or multipolygon whose boundary is a line string or
  multi-line-string. When the record labelled 0 is a polygon or multipolygon, every
  geometry present in the result of \<^verbatim>\<open>check_geom\<close> has exactly two vertices. When
  that record is already of line type, \<^verbatim>\<open>check_geom\<close> returns the collection as it
  is: \<^verbatim>\<open>ToSingleLines\<close> is not applied to it.
\<close>

theorem ToSingleLines_atomic:
  "(\<forall>ls. ToSingleLines ops g = Inr (Some ls) \<longrightarrow> list_all two_vertex_line ls) \<and>
   (geom_type g \<in> set [''LineString'', ''MultiLineString'']
      \<longrightarrow> (\<exists>ls. ToSingleLines ops g = Inr (Some ls))) \<and>
   (geom_type g \<in> set [''Polygon'', ''MultiPolygon''] \<and>
    geom_type (boundary ops g) \<in> set [''LineString'', ''MultiLineString'']
      \<longrightarrow> (\<exists>ls. ToSingleLines ops g = Inr (Some ls))) \<and>
   (\<forall>t out. geom_type_at_0 input_gdf = Inr t \<and> t \<in> set [''Polygon'', ''MultiPolygon''] \<and>
        check_geom ops input_gdf = Inr (Some out)
      \<longrightarrow> (\<forall>r \<in> set out. \<forall>h. geometry r = Some h \<longrightarrow> two_vertex_line h)) \<and>
   (\<forall>t. geom_type_at_0 input_gdf = Inr t \<and> t \<in> set [''LineString'', ''MultiLineString'']
      \<longrightarrow> check_geom ops input_gdf = Inr (Some input_gdf))"
proof (intro conjI allI impI ballI)
  fix ls assume "ToSingleLines ops g = Inr (Some ls)"
  then show "list_all two_vertex_line ls"
    by (auto simp: list_all_iff dest: ToSingleLines_two)
next
  assume "geom_type g \<in> set [''LineString'', ''MultiLineString'']"
  then show "\<exists>ls. ToSingleLines ops g = Inr (Some ls)"
    by (rule ToSingleLines_total_lines)
next
  assume "geom_type g \<in> set [''Polygon'', ''MultiPolygon''] \<and>
    geom_type (boundary ops g) \<in> set [''LineString'', ''MultiLineString'']"
  then show "\<exists>ls. ToSingleLines ops g = Inr (Some ls)"
    using ToSingleLines_total by blast
next
  fix t
  assume "geom_type_at_0 input_gdf = Inr t \<and> t \<in> set [''LineString'', ''MultiLineString'']"
  then show "check_geom ops input_gdf = Inr (Some input_gdf)"
    by (auto simp: check_geom_def ebind_def)
next
  fix t out r h
  assume a: "geom_type_at_0 input_gdf = Inr t \<and> t \<in> set [''Polygon'', ''MultiPolygon''] \<and>
        check_geom ops input_gdf = Inr (Some out)"
    and r: "r \<in> set out" and h: "geometry r = Some h"
  from a check_geom_polygon [of input_gdf t ops] obtain w where
    w: "add_single_lines ops (explode_geometry input_gdf) = Inr w"
    and out: "out = SwapGeometry (explode_column w)"
    by (auto split: sum.splits)
  from r out have "\<exists>r0. (r0, geometry r) \<in> set (explode_column w)"
    by (simp add: SwapGeometry_rows)
  with h obtain r0 where "(r0, Some h) \<in> set (explode_column w)" by auto
  from explode_column_cells [OF this] obtain ls where
    ls: "(r0, Some ls) \<in> set w" and hl: "h \<in> set ls" by blast
  from add_single_lines_cells [OF w ls] obtain p where
    "ToSingleLines ops p = Inr (Some ls)" by blast
  from ToSingleLines_two [OF this hl] show "two_vertex_line h" .
qed

text \<open>
  Claim C5 as stated fails. A collection that is already of line type is passed
  through by \<^verbatim>\<open>check_geom\<close>, not atomized, and its three-vertex line string receives
  a segment identifier as it is.
\<close>

theorem line_input_not_atomized:
  "check_geom (plain_geos []) [line_at 0] = Inr (Some [line_at 0]) \<and>
   build_seg_index (plain_geos []) [line_at 0]
     = Inr [\<lparr>geometry = Some (LineString [(0, 0), (5, 5), (10, 0)]), label = 0, seg_index = 1\<rparr>] \<and>
   \<not> two_vertex_line (LineString [(0, 0), (5, 5), (10, 0)])"
  by (simp add: check_geom_def geom_type_at_0_def ebind_def line_at_def build_seg_index_def
      exclude_non_lines_def cell_geom_type_def merge_multi_lines_def explode_multis_def
      assign_seg_index_def line_row.defs seg_row.defs two_vertex_line_def)

text \<open>
  The amended claim at the square building, alone and in a collection with a point.
\<close>

theorem ToSingleLines_atomic_witness:
  "ToSingleLines (plain_geos []) square
     = Inr (Some [LineString [(0, 0), (10, 0)], LineString [(10, 0), (10, 10)],
                  LineString [(10, 10), (0, 10)], LineString [(0, 10), (0, 0)]]) \<and>
   list_all two_vertex_line
     [LineString [(0, 0), (10, 0)], LineString [(10, 0), (10, 10)],
      LineString [(10, 10), (0, 10)], LineString [(0, 10), (0, 0)]] \<and>
   geom_type_at_0 [square_at 0, point_at 1] = Inr ''Polygon'' \<and>
   check_geom (plain_geos []) [square_at 0, point_at 1]
     = Inr (Some [\<lparr>geometry = Some (LineString [(0, 0), (10, 0)]), label = 0\<rparr>,
                  \<lparr>geometry = Some (LineString [(10, 0), (10, 10)]), label = 0\<rparr>,
                  \<lparr>geometry = Some (LineString [(10, 10), (0, 10)]), label = 0\<rparr>,
                  \<lparr>geometry = Some (LineString [(0, 10), (0, 0)]), label = 0\<rparr>,
                  \<lparr>geometry = None, label = 1\<rparr>]) \<and>
   list_all (\<lambda>r. \<forall>h. geometry r = Some h \<longrightarrow> two_vertex_line h)
     [\<lparr>geometry = Some (LineString [(0, 0), (10, 0)]), label = 0\<rparr>,
      \<lparr>geometry = Some (LineString [(10, 0), (10, 10)]), label = 0\<rparr>,
      \<lparr>geometry = Some (LineString [(10, 10), (0, 10)]), label = 0\<rparr>,
      \<lparr>geometry = Some (LineString [(0, 10), (0, 0)]), label = 0\<rparr>,
      \<lparr>geometry = None, label = (1::int)\<rparr>]"
proof -
  have ev: "ToSingleLines (plain_geos []) square
     = Inr (Some [LineString [(0, 0), (10, 0)], LineString [(10, 0), (10, 10)],
                  LineString [(10, 10), (0, 10)], LineString [(0, 10), (0, 0)]])"
    by (simp add: ToSingleLines_def plain_geos_def square_def ring_boundary_def
        consecutive_lines_def)
  have ty: "geom_type_at_0 [square_at 0, point_at 1] = Inr ''Polygon''"
    by (simp add: geom_type_at_0_def square_at_def point_at_def square_def)
  have pt: "ToSingleLines (plain_geos []) (Point (3, 3)) = Inr None"
    by (simp add: ToSingleLines_def)
  have cg: "check_geom (plain_geos []) [square_at 0, point_at 1]
     = Inr (Some [\<lparr>geometry = Some (LineString [(0, 0), (10, 0)]), label = 0\<rparr>,
                  \<lparr>geometry = Some (LineString [(10, 0), (10, 10)]), label = 0\<rparr>,
                  \<lparr>geometry = Some (LineString [(10, 10), (0, 10)]), label = 0\<rparr>,
                  \<lparr>geometry = Some (LineString [(0, 10), (0, 0)]), label = 0\<rparr>,
                  \<lparr>geometry = None, label = 1\<rparr>])"
    unfolding check_geom_def ty
    by (simp add: ebind_def explode_geometry_def explode_row_def square_at_def point_at_def
        add_single_lines_def pt ev [unfolded square_def] square_def explode_column_def
        explode_cell_def SwapGeometry_def)
  from ToSingleLines_atomic [of "plain_geos []" square "[square_at 0, point_at 1]"] ev ty cg
  show ?thesis by simp
qed

subsection \<open>\<^verbatim>\<open>FindIntersects\<close>\<close>

lemma filter_key_singleton:
  "distinct (map f xs) \<Longrightarrow> b \<in> set xs \<Longrightarrow> filter (\<lambda>l. f l = f b) xs = [b]"
proof (induction xs)
  case Nil
  then show ?case by simp
next
  case (Cons x xs)
  show ?case
  proof (cases "x = b")
    case True
    from Cons.prems(1) have "f x \<notin> f ` set xs" by simp
    then have "\<forall>l \<in> set xs. f l \<noteq> f x" by (metis imageI)
    then have "filter (\<lambda>l. f l = f b) xs = []" using True by (simp add: filter_empty_conv)
    with True show ?thesis by simp
  next
    case False
    with Cons.prems have b: "b \<in> set xs" and "f x \<noteq> f b" by auto
    with Cons show ?thesis by simp
  qed
qed

lemma filter_sjoin:
  "filter (\<lambda>j. f (fst j) = k) (sjoin ops L R)
     = concat (map (\<lambda>l. map (Pair l)
                 (filter (\<lambda>r. cells_intersect ops (geometry l) (geometry r)) R))
              (filter (\<lambda>l. f l = k) L))"
  by (induction L) (simp_all add: sjoin_def filter_concat comp_def filter_map)

lemma line_ints_of:
  assumes "distinct (map input_link_field input_geom)" and "b \<in> set input_geom"
  shows "map (\<lambda>j. search_link_field (snd j))
           (filter (\<lambda>j. input_link_field (fst j) = input_link_field b)
              (sjoin ops input_geom search_geometry))
         = map search_link_field
             (filter (\<lambda>s. cells_intersect ops (geometry b) (geometry s)) search_geometry)"
  by (simp add: filter_sjoin filter_key_singleton [OF assms] comp_def)

lemma FindIntersects_nth:
  assumes "i < length input_geom"
  shows "FindIntersects ops input_geom search_geometry input_link_field search_link_field ! i
         = bp_row.extend (input_geom ! i)
             (linked_row.fields
                (map (\<lambda>j. search_link_field (snd j))
                   (filter (\<lambda>j. input_link_field (fst j) = input_link_field (input_geom ! i))
                      (sjoin ops input_geom search_geometry))))"
  using assms by (simp add: FindIntersects_def)

text \<open>
  Claim C8. After \<^verbatim>\<open>FindIntersects\<close>, with the segment identifiers and the building
  identifiers each distinct (they are assigned as \<^verbatim>\<open>range(1, n + 1)\<close>), every building
  keeps its geometry and carries a duplicate-free tuple of segment identifiers holding
  exactly the identifiers of the segments whose geometry intersects the building's;
  a building that no segment intersects carries the empty tuple.
\<close>

theorem FindIntersects_links:
  assumes "distinct (map search_link_field search_geometry)"
    and "distinct (map input_link_field input_geom)"
    and "i < length input_geom"
  shows "length (FindIntersects ops input_geom search_geometry input_link_field search_link_field)
           = length input_geom \<and>
         geometry (FindIntersects ops input_geom search_geometry input_link_field
                     search_link_field ! i) = geometry (input_geom ! i) \<and>
         bp_index (FindIntersects ops input_geom search_geometry input_link_field
                     search_link_field ! i) = bp_index (input_geom ! i) \<and>
         distinct (line_ints (FindIntersects ops input_geom search_geometry input_link_field
                     search_link_field ! i)) \<and>
         set (line_ints (FindIntersects ops input_geom search_geometry input_link_field
                     search_link_field ! i))
           = {search_link_field s | s. s \<in> set search_geometry \<and>
                cells_intersect ops (geometry (input_geom ! i)) (geometry s)} \<and>
         ((\<forall>s \<in> set search_geometry.
              \<not> cells_intersect ops (geometry (input_geom ! i)) (geometry s))
            \<longrightarrow> line_ints (FindIntersects ops input_geom search_geometry input_link_field
                     search_link_field ! i) = [])"
proof -
  let ?b = "input_geom ! i"
  let ?hits = "filter (\<lambda>s. cells_intersect ops (geometry ?b) (geometry s)) search_geometry"
  from assms(3) have b: "?b \<in> set input_geom" by simp
  have row: "FindIntersects ops input_geom search_geometry input_link_field search_link_field ! i
         = bp_row.extend ?b (linked_row.fields (map search_link_field ?hits))"
    unfolding FindIntersects_nth [OF assms(3)] line_ints_of [OF assms(2) b] ..
  have li: "line_ints (bp_row.extend ?b (linked_row.fields (map search_link_field ?hits)))
         = map search_link_field ?hits"
    by (simp add: bp_row.defs linked_row.defs)
  have d: "distinct (map search_link_field ?hits)"
    using assms(1) by (rule distinct_map_filter)
  have s: "set (map search_link_field ?hits)
      = {search_link_field s | s. s \<in> set search_geometry \<and>
                cells_intersect ops (geometry ?b) (geometry s)}"
    by auto
  have e: "(\<forall>s \<in> set search_geometry. \<not> cells_intersect ops (geometry ?b) (geometry s))
      \<longrightarrow> map search_link_field ?hits = []"
    by (simp add: filter_empty_conv)
  show ?thesis
    unfolding row li using d s e
    by (simp add: FindIntersects_def bp_row.defs linked_row.defs)
qed

text \<open>
  Two buildings and three segments: the square meets the first and the third segment,
  the triangle none.
\<close>

theorem FindIntersects_links_witness:
  "distinct (map seg_index three_segments) \<and>
   distinct (map bp_index two_buildings) \<and>
   (0::nat) < length two_buildings \<and>
   FindIntersects (plain_geos []) two_buildings three_segments bp_index seg_index
     = [\<lparr>geometry = Some square, bp_index = 1, line_ints = [1, 3]\<rparr>,
        \<lparr>geometry = Some (Polygon ([(20, 20), (30, 20), (30, 30), (20, 20)], [])),
         bp_index = 2, line_ints = []\<rparr>] \<and>
   distinct (line_ints (FindIntersects (plain_geos []) two_buildings three_segments
                          bp_index seg_index ! 0))"
proof -
  have d1: "distinct (map seg_index three_segments)"
    by (simp add: three_segments_def)
  have d2: "distinct (map bp_index two_buildings)"
    by (simp add: two_buildings_def)
  have n: "(0::nat) < length two_buildings"
    by (simp add: two_buildings_def)
  have ev: "FindIntersects (plain_geos []) two_buildings three_segments bp_index seg_index
     = [\<lparr>geometry = Some square, bp_index = 1, line_ints = [1, 3]\<rparr>,
        \<lparr>geometry = Some (Polygon ([(20, 20), (30, 20), (30, 30), (20, 20)], [])),
         bp_index = 2, line_ints = []\<rparr>]"
    by (simp add: FindIntersects_def sjoin_def cells_intersect_def plain_geos_def
        share_vertex_def vertices_def two_buildings_def three_segments_def square_def
        bp_row.defs linked_row.defs)
  from FindIntersects_links [OF d1 d2 n, of "plain_geos []"] d1 d2 n ev show ?thesis
    by simp
qed

subsection \<open>The segment catalog\<close>

lemma line_type_cell_iff:
  "cell_geom_type c \<in> set [Some ''LineString'', Some ''MultiLineString''] \<longleftrightarrow> line_type_cell c"
  by (cases c) (auto simp: cell_geom_type_def line_type_cell_def)

lemma set_exclude_non_lines:
  "set (exclude_non_lines line_geom) = {r \<in> set line_geom. line_type_cell (geometry r)}"
  by (auto simp: exclude_non_lines_def line_type_cell_iff simp del: set_simps)

lemma merge_multi_lines_total:
  assumes "\<forall>r \<in> set rows. geometry r \<noteq> None"
  shows "merge_multi_lines ops rows
         = Inr (map (\<lambda>r. r\<lparr>geometry :=
                      Some (if geom_type (the (geometry r)) = ''MultiLineString''
                            then linemerge ops (PyGeom (the (geometry r)))
                            else the (geometry r))\<rparr>) rows)"
  using assms
proof (induction rows)
  case Nil
  then show ?case by (simp add: merge_multi_lines_def)
next
  case (Cons r rows)
  then obtain x where x: "geometry r = Some x" by auto
  from Cons have "merge_multi_lines ops rows
         = Inr (map (\<lambda>r. r\<lparr>geometry :=
                      Some (if geom_type (the (geometry r)) = ''MultiLineString''
                            then linemerge ops (PyGeom (the (geometry r)))
                            else the (geometry r))\<rparr>) rows)" by simp
  then show ?case using x by (simp add: merge_multi_lines_def)
qed

lemma merged_not_multi:
  "merged_cell c \<Longrightarrow> cell_geom_type c \<noteq> Some ''MultiLineString'' \<Longrightarrow> line_string_cell c"
  by (cases c; cases "the c")
     (auto simp: merged_cell_def merged_lines_def cell_geom_type_def line_string_cell_def)

lemma explode_row_multi:
  assumes "merged_cell (geometry r)" and "cell_geom_type (geometry r) = Some ''MultiLineString''"
    and "q \<in> set (explode_row r)"
  shows "line_string_cell (geometry q)"
proof -
  from assms(2) obtain g where g: "geometry r = Some g" and "geom_type g = ''MultiLineString''"
    by (cases "geometry r") (auto simp: cell_geom_type_def)
  then obtain ls where ls: "g = MultiLineString ls" using geom_type_MultiLineString by blast
  with assms(1) g have "ls \<noteq> []" by (simp add: merged_cell_def merged_lines_def)
  then obtain l ls' where c: "ls = l # ls'" by (cases ls) auto
  from assms(3) have "q \<in> set (map (\<lambda>p. r\<lparr>geometry := Some p\<rparr>) (map LineString (l # ls')))"
    unfolding explode_row_def g ls c by simp
  then show ?thesis by (auto simp: line_string_cell_def)
qed

lemma explode_multis_lines:
  assumes "\<forall>r \<in> set rows. merged_cell (geometry r)" and "q \<in> set (explode_multis rows)"
  shows "line_string_cell (geometry q)"
proof -
  let ?multis = "filter (\<lambda>r. cell_geom_type (geometry r) = Some ''MultiLineString'') rows"
  let ?rest = "filter (\<lambda>r. cell_geom_type (geometry r) \<noteq> Some ''MultiLineString'') rows"
  show ?thesis
  proof (cases "length ?multis > 0")
    case True
    then have "explode_multis rows = ?rest @ explode_geometry ?multis"
      by (simp add: explode_multis_def Let_def)
    with assms(2) consider "q \<in> set ?rest" | "q \<in> set (explode_geometry ?multis)" by auto
    then show ?thesis
    proof cases
      case 1
      with assms(1) show ?thesis using merged_not_multi by auto
    next
      case 2
      then obtain r where "r \<in> set ?multis" and "q \<in> set (explode_row r)"
        by (auto simp: explode_geometry_def)
      with assms(1) show ?thesis using explode_row_multi [of r q] by auto
    qed
  next
    case False
    then have e: "explode_multis rows = rows" and n: "?multis = []"
      by (simp_all add: explode_multis_def Let_def)
    from n have "\<forall>r \<in> set rows. cell_geom_type (geometry r) \<noteq> Some ''MultiLineString''"
      by (simp add: filter_empty_conv)
    with assms e show ?thesis using merged_not_multi by auto
  qed
qed

lemma extend_seg_row:
  "geometry (line_row.extend r (seg_row.fields i)) = geometry r"
  "seg_index (line_row.extend r (seg_row.fields i)) = i"
  by (simp_all add: line_row.defs seg_row.defs)

lemma map_extend_seg_row:
  "map geometry (map (\<lambda>(r, i). line_row.extend r (seg_row.fields i)) zs)
     = map geometry (map fst zs)"
  "map seg_index (map (\<lambda>(r, i). line_row.extend r (seg_row.fields i)) zs) = map snd zs"
  by (induction zs) (auto simp: extend_seg_row)

lemma length_assign_seg_index: "length (assign_seg_index rows) = length rows"
  by (simp add: assign_seg_index_def del: upt_Suc)

lemma assign_seg_index_geometry:
  "map geometry (assign_seg_index rows) = map geometry rows"
proof -
  have l: "length rows = length [1 ..< Suc (length rows)]" by (simp del: upt_Suc)
  have "map geometry (assign_seg_index rows)
        = map geometry (map fst (zip rows [1 ..< Suc (length rows)]))"
    unfolding assign_seg_index_def by (rule map_extend_seg_row)
  also have "map fst (zip rows [1 ..< Suc (length rows)]) = rows"
    using l by (rule map_fst_zip)
  finally show ?thesis .
qed

lemma assign_seg_index_ids:
  "map seg_index (assign_seg_index rows) = [1 ..< Suc (length (assign_seg_index rows))]"
proof -
  have l: "length rows = length [1 ..< Suc (length rows)]" by (simp del: upt_Suc)
  have "map seg_index (assign_seg_index rows)
        = map snd (zip rows [1 ..< Suc (length rows)])"
    unfolding assign_seg_index_def by (rule map_extend_seg_row)
  also have "\<dots> = [1 ..< Suc (length rows)]"
    using l by (rule map_snd_zip)
  finally show ?thesis by (simp only: length_assign_seg_index)
qed

lemma merged_singled:
  assumes "line_type_cell (geometry r)"
    and "\<forall>m. geometry r = Some (MultiLineString m)
           \<longrightarrow> merged_lines (linemerge ops (PyGeom (MultiLineString m)))"
  shows "merged_cell (geometry (r\<lparr>geometry :=
                      Some (if geom_type (the (geometry r)) = ''MultiLineString''
                            then linemerge ops (PyGeom (the (geometry r)))
                            else the (geometry r))\<rparr>))"
proof -
  from assms(1) obtain g where g: "geometry r = Some g"
    and t: "geom_type g \<in> set [''LineString'', ''MultiLineString'']"
    by (cases "geometry r") (auto simp: line_type_cell_def)
  show ?thesis
  proof (cases "geom_type g = ''MultiLineString''")
    case True
    then obtain m where "g = MultiLineString m" using geom_type_MultiLineString by blast
    with assms(2) g show ?thesis by (simp add: merged_cell_def)
  next
    case False
    with t have "geom_type g = ''LineString''" by simp
    then obtain cs where "g = LineString cs" using geom_type_LineString by blast
    with g show ?thesis by (simp add: merged_cell_def merged_lines_def)
  qed
qed

lemma line_string_is_line_type: "line_string_cell c \<Longrightarrow> line_type_cell c"
  by (cases c; cases "the c") (auto simp: line_string_cell_def line_type_cell_def)

text \<open>
  Claim C10. The filter of lines 268 to 270 keeps exactly the records whose geometry is
  a \<^verbatim>\<open>LineString\<close> or a \<^verbatim>\<open>MultiLineString\<close>; every other record, a missing
  geometry included, is dropped and no error is raised: lines 268 to 287 always return
  a catalog, numbered from 1. When line merging keeps its contract on the
  multi-line-strings present, every geometry of the catalog is of line type at the
  moment the segment identifiers are assigned.
\<close>

theorem non_lines_excluded:
  "set (exclude_non_lines line_geom) = {r \<in> set line_geom. line_type_cell (geometry r)} \<and>
   (\<exists>cat. build_seg_index ops line_geom = Inr cat \<and>
      map seg_index cat = [1 ..< Suc (length cat)] \<and>
      ((\<forall>r \<in> set line_geom. \<forall>m. geometry r = Some (MultiLineString m)
            \<longrightarrow> merged_lines (linemerge ops (PyGeom (MultiLineString m))))
         \<longrightarrow> list_all (\<lambda>s. line_type_cell (geometry s)) cat))"
proof -
  let ?kept = "exclude_non_lines line_geom"
  let ?f = "\<lambda>r::line_row. r\<lparr>geometry :=
                      Some (if geom_type (the (geometry r)) = ''MultiLineString''
                            then linemerge ops (PyGeom (the (geometry r)))
                            else the (geometry r))\<rparr>"
  let ?singled = "map ?f ?kept"
  let ?cat = "assign_seg_index (explode_multis ?singled)"
  have k: "set ?kept = {r \<in> set line_geom. line_type_cell (geometry r)}"
    by (rule set_exclude_non_lines)
  then have "\<forall>r \<in> set ?kept. geometry r \<noteq> None"
    by (auto simp: line_type_cell_def split: option.splits)
  then have m: "merge_multi_lines ops ?kept = Inr ?singled"
    by (rule merge_multi_lines_total)
  then have b: "build_seg_index ops line_geom = Inr ?cat"
    by (simp add: build_seg_index_def ebind_def)
  have ids: "map seg_index ?cat = [1 ..< Suc (length ?cat)]"
    by (rule assign_seg_index_ids)
  have lines: "list_all (\<lambda>s. line_type_cell (geometry s)) ?cat"
    if h: "\<forall>r \<in> set line_geom. \<forall>m. geometry r = Some (MultiLineString m)
            \<longrightarrow> merged_lines (linemerge ops (PyGeom (MultiLineString m)))"
  proof -
    have "\<forall>r \<in> set ?singled. merged_cell (geometry r)"
    proof
      fix r assume "r \<in> set ?singled"
      then obtain r0 where r0: "r0 \<in> set ?kept" and r: "r = ?f r0" by auto
      from r0 k have "r0 \<in> set line_geom" and "line_type_cell (geometry r0)" by auto
      with h show "merged_cell (geometry r)"
        unfolding r by (intro merged_singled) auto
    qed
    then have "\<forall>q \<in> set (explode_multis ?singled). line_type_cell (geometry q)"
      using explode_multis_lines line_string_is_line_type by blast
    then have "list_all line_type_cell (map geometry (explode_multis ?singled))"
      by (simp add: list_all_iff)
    then have "list_all line_type_cell (map geometry ?cat)"
      by (simp only: assign_seg_index_geometry)
    then show ?thesis by (simp add: list_all_iff)
  qed
  from k b ids lines show ?thesis by blast
qed

text \<open>
  A frame of a line, a point, a polygon and a multi-line-string: the point and the
  polygon are dropped without error, the multi-line-string is exploded.
\<close>

theorem non_lines_excluded_witness:
  "list_all (\<lambda>r. \<forall>m. geometry r = Some (MultiLineString m)
              \<longrightarrow> merged_lines (linemerge (plain_geos []) (PyGeom (MultiLineString m))))
     [line_at 0, point_at 1, square_at 2, multi_at 3] \<and>
   exclude_non_lines [line_at 0, point_at 1, square_at 2, multi_at 3] = [line_at 0, multi_at 3] \<and>
   build_seg_index (plain_geos []) [line_at 0, point_at 1, square_at 2, multi_at 3]
     = Inr [\<lparr>geometry = Some (LineString [(0, 0), (5, 5), (10, 0)]), label = 0, seg_index = 1\<rparr>,
            \<lparr>geometry = Some (LineString [(0, 0), (1, 1)]), label = 3, seg_index = 2\<rparr>,
            \<lparr>geometry = Some (LineString [(5, 5), (6, 6), (7, 5)]), label = 3, seg_index = 3\<rparr>] \<and>
   list_all (\<lambda>s. line_type_cell (geometry s))
     [\<lparr>geometry = Some (LineString [(0, 0), (5, 5), (10, 0)]), label = 0, seg_index = 1\<rparr>,
      \<lparr>geometry = Some (LineString [(0, 0), (1, 1)]), label = 3, seg_index = 2\<rparr>,
      \<lparr>geometry = Some (LineString [(5, 5), (6, 6), (7, 5)]), label = 3, seg_index = (3::nat)\<rparr>]"
proof -
  have h: "\<forall>r \<in> set [line_at 0, point_at 1, square_at 2, multi_at 3].
             \<forall>m. geometry r = Some (MultiLineString m)
               \<longrightarrow> merged_lines (linemerge (plain_geos []) (PyGeom (MultiLineString m)))"
    by (simp add: line_at_def point_at_def square_at_def multi_at_def square_def
        plain_geos_def collect_lines_def merged_lines_def)
  have e: "exclude_non_lines [line_at 0, point_at 1, square_at 2, multi_at 3]
             = [line_at 0, multi_at 3]"
    by (simp add: exclude_non_lines_def cell_geom_type_def line_at_def point_at_def
        square_at_def multi_at_def square_def)
  have b: "build_seg_index (plain_geos []) [line_at 0, point_at 1, square_at 2, multi_at 3]
     = Inr [\<lparr>geometry = Some (LineString [(0, 0), (5, 5), (10, 0)]), label = 0, seg_index = 1\<rparr>,
            \<lparr>geometry = Some (LineString [(0, 0), (1, 1)]), label = 3, seg_index = 2\<rparr>,
            \<lparr>geometry = Some (LineString [(5, 5), (6, 6), (7, 5)]), label = 3, seg_index = 3\<rparr>]"
    unfolding build_seg_index_def e
    by (simp add: ebind_def merge_multi_lines_def line_at_def multi_at_def plain_geos_def
        collect_lines_def explode_multis_def cell_geom_type_def explode_geometry_def
        explode_row_def assign_seg_index_def line_row.defs seg_row.defs)
  from non_lines_excluded [of "[line_at 0, point_at 1, square_at 2, multi_at 3]" "plain_geos []"]
    h e b
  show ?thesis by (simp add: list_all_iff)
qed

subsection \<open>The sliver filter\<close>

lemma sliver_filter_rows:
  "split_area r = Num a \<Longrightarrow>
   (r \<in> set (slivers t bp) \<longleftrightarrow> r \<in> set bp \<and> a \<le> t) \<and>
   (r \<in> set (bp_kept t bp) \<longleftrightarrow> r \<in> set bp \<and> t \<le> a)"
  by (simp add: slivers_def bp_kept_def float_le_def float_ge_def)

lemma round2_20: "round2 (plain_geos fs) (Num 20) = Num 20"
  by (simp add: round2_def plain_geos_def round_decimals_def round_half_even_def)

text \<open>
  Claim C1 fails on the code at the threshold. The fragment whose rounded area equals
  \<^verbatim>\<open>sliver_max_area\<close> satisfies both \<^verbatim>\<open>split_area <= sliver_max_area\<close> (line 311)
  and \<^verbatim>\<open>split_area >= sliver_max_area\<close> (line 312): it is kept in the sliver
  collection and in the output collection.
\<close>

theorem threshold_fragment_in_both:
  "add_split_area (plain_geos []) [threshold_fragment]
     = [\<lparr>geometry = Some (Polygon ([(0, 0), (5, 0), (5, 4), (0, 4), (0, 0)], [])),
         bp_index = 1, split_area = Num 20\<rparr>] \<and>
   slivers 20 (add_split_area (plain_geos []) [threshold_fragment])
     = add_split_area (plain_geos []) [threshold_fragment] \<and>
   bp_kept 20 (add_split_area (plain_geos []) [threshold_fragment])
     = add_split_area (plain_geos []) [threshold_fragment]"
proof -
  have a: "cell_area (plain_geos []) (geometry threshold_fragment) = Num 20"
    by (simp add: cell_area_def plain_geos_def threshold_fragment_def ring_area_def shoelace_def)
  have s: "add_split_area (plain_geos []) [threshold_fragment]
     = [\<lparr>geometry = Some (Polygon ([(0, 0), (5, 0), (5, 4), (0, 4), (0, 0)], [])),
         bp_index = 1, split_area = Num 20\<rparr>]"
    by (simp add: add_split_area_def a round2_20 bp_row.defs frag_row.defs)
       (simp add: threshold_fragment_def)
  show ?thesis
    unfolding s by (simp add: slivers_def bp_kept_def float_le_def float_ge_def)
qed

lemma geometry_add_split_area:
  "map geometry (add_split_area ops bp) = map geometry bp"
  by (simp add: add_split_area_def bp_row.defs frag_row.defs comp_def)

lemma fragments_area_add_split_area:
  "fragments_area ops (add_split_area ops bp) = fragments_area ops bp"
proof -
  have h: "fragments_area ops rows
      = sum_list (map (\<lambda>c. case c of None \<Rightarrow> 0 | Some g \<Rightarrow> area ops g) (map geometry rows))"
    for rows :: "'z row_scheme list"
    by (simp add: fragments_area_def comp_def)
  show ?thesis by (simp only: h geometry_add_split_area)
qed

lemma fragments_area_append:
  "fragments_area ops (xs @ ys) = fragments_area ops xs + fragments_area ops ys"
  by (simp add: fragments_area_def)

lemma threshold_rows_in_both:
  assumes "\<forall>r \<in> set frags. split_area r = Num t"
  shows "slivers t frags = frags \<and> bp_kept t frags = frags"
  using assms by (simp add: slivers_def bp_kept_def float_le_def float_ge_def filter_id_conv)

lemma cut_row_unlinked:
  assumes "geometry b = Some g" and "line_ints b = []"
  shows "cut_row ops line_geom b = Inr b"
  using assms by (simp add: cut_row_def CutPolygon_def)

lemma explode_row_polygon:
  assumes "geometry b = Some (Polygon p)"
  shows "explode_row b = [b]"
  using assms by (simp add: explode_row_def)

text \<open>
  Claim C2 fails on the code at the threshold. For every geometry library, a building
  polygon that no segment is linked to is returned by the cut as its only fragment, with
  its area conserved; but when its rounded area equals \<^verbatim>\<open>sliver_max_area\<close> the
  fragment is kept both in the sliver collection (line 311) and in the output (line
  312), so the areas of output plus slivers sum to twice the area of the building, and
  the two collections hold one and the same fragment.
\<close>

theorem unlinked_building_counted_twice:
  assumes "geometry b = Some (Polygon p)" and "line_ints b = []"
    and "round2 ops (Num (area ops (Polygon p))) = Num sliver_max_area"
  shows "cut_buildings ops [b] line_geom = Inr [bp_row.truncate b] \<and>
         fragments_area ops [bp_row.truncate b] = area ops (Polygon p) \<and>
         slivers sliver_max_area (add_split_area ops [bp_row.truncate b])
           = add_split_area ops [bp_row.truncate b] \<and>
         bp_kept sliver_max_area (add_split_area ops [bp_row.truncate b])
           = add_split_area ops [bp_row.truncate b] \<and>
         fragments_area ops
             (slivers sliver_max_area (add_split_area ops [bp_row.truncate b])
              @ bp_kept sliver_max_area (add_split_area ops [bp_row.truncate b]))
           = 2 * area ops (Polygon p)"
proof -
  let ?f = "bp_row.truncate b"
  have g: "geometry ?f = Some (Polygon p)"
    using assms(1) by (simp add: bp_row.defs)
  have c: "cut_buildings ops [b] line_geom = Inr [?f]"
    by (simp add: cut_buildings_def ebind_def cut_row_unlinked [OF assms(1,2)]
        explode_geometry_def explode_row_polygon [OF assms(1)])
  have a: "fragments_area ops [?f] = area ops (Polygon p)"
    by (simp add: fragments_area_def g)
  have "\<forall>r \<in> set (add_split_area ops [?f]). split_area r = Num sliver_max_area"
    using assms(3) by (simp add: add_split_area_def bp_row.defs frag_row.defs cell_area_def assms(1))
  then have b: "slivers sliver_max_area (add_split_area ops [?f]) = add_split_area ops [?f]"
    "bp_kept sliver_max_area (add_split_area ops [?f]) = add_split_area ops [?f]"
    using threshold_rows_in_both by blast+
  have t: "fragments_area ops (add_split_area ops [?f] @ add_split_area ops [?f])
      = 2 * area ops (Polygon p)"
    by (simp add: fragments_area_append fragments_area_add_split_area a)
  from c a b t show ?thesis by simp
qed

text \<open>
  The rectangle of 5 by 4 with the default threshold of 20: the two collections hold an
  area of 40.
\<close>

theorem unlinked_building_counted_twice_witness:
  "geometry unlinked_threshold_building
     = Some (Polygon ([(0, 0), (5, 0), (5, 4), (0, 4), (0, 0)], [])) \<and>
   line_ints unlinked_threshold_building = [] \<and>
   round2 (plain_geos [])
     (Num (area (plain_geos []) (Polygon ([(0, 0), (5, 0), (5, 4), (0, 4), (0, 0)], []))))
     = Num 20 \<and>
   cut_buildings (plain_geos []) [unlinked_threshold_building] [mid_segment]
     = Inr [threshold_fragment] \<and>
   fragments_area (plain_geos []) [threshold_fragment] = 20 \<and>
   fragments_area (plain_geos [])
       (slivers 20 (add_split_area (plain_geos []) [threshold_fragment])
        @ bp_kept 20 (add_split_area (plain_geos []) [threshold_fragment])) = 40"
proof -
  have g: "geometry unlinked_threshold_building
     = Some (Polygon ([(0, 0), (5, 0), (5, 4), (0, 4), (0, 0)], []))"
    by (simp add: unlinked_threshold_building_def)
  have l: "line_ints unlinked_threshold_building = []"
    by (simp add: unlinked_threshold_building_def)
  have ar: "area (plain_geos []) (Polygon ([(0, 0), (5, 0), (5, 4), (0, 4), (0, 0)], [])) = 20"
    by (simp add: plain_geos_def ring_area_def shoelace_def)
  have r: "round2 (plain_geos [])
     (Num (area (plain_geos []) (Polygon ([(0, 0), (5, 0), (5, 4), (0, 4), (0, 0)], []))))
     = Num 20"
    unfolding ar by (rule round2_20)
  have t: "bp_row.truncate unlinked_threshold_building = threshold_fragment"
    by (simp add: unlinked_threshold_building_def threshold_fragment_def bp_row.defs)
  note th = unlinked_building_counted_twice [OF g l r, of "[mid_segment]", unfolded t ar]
  from th have
    "cut_buildings (plain_geos []) [unlinked_threshold_building] [mid_segment]
       = Inr [threshold_fragment]"
    and "fragments_area (plain_geos []) [threshold_fragment] = 20"
    and "fragments_area (plain_geos [])
       (slivers 20 (add_split_area (plain_geos []) [threshold_fragment])
        @ bp_kept 20 (add_split_area (plain_geos []) [threshold_fragment])) = 2 * 20"
    by blast+
  with g l r show ?thesis by simp
qed

text \<open>
  The same on a building that is cut: the building of 10 by 4, halved into two fragments
  of area 20 each, leaves an area of 80 in output plus slivers.
\<close>

lemma halved_building_counted_twice:
  "FindIntersects (plain_geos [west_half, east_half]) [long_building] [cut_segment]
       bp_index seg_index
     = [\<lparr>geometry = Some (Polygon ([(0, 0), (5, 0), (10, 0), (10, 4), (5, 4), (0, 4), (0, 0)], [])),
         bp_index = 1, line_ints = [1]\<rparr>] \<and>
   cut_buildings (plain_geos [west_half, east_half])
       [\<lparr>geometry = Some (Polygon ([(0, 0), (5, 0), (10, 0), (10, 4), (5, 4), (0, 4), (0, 0)], [])),
         bp_index = 1, line_ints = [1]\<rparr>] [cut_segment]
     = Inr [\<lparr>geometry = Some (Polygon west_half), bp_index = 1\<rparr>,
            \<lparr>geometry = Some (Polygon east_half), bp_index = 1\<rparr>] \<and>
   add_split_area (plain_geos [west_half, east_half])
       [\<lparr>geometry = Some (Polygon west_half), bp_index = 1\<rparr>,
        \<lparr>geometry = Some (Polygon east_half), bp_index = 1\<rparr>]
     = [\<lparr>geometry = Some (Polygon west_half), bp_index = 1, split_area = Num 20\<rparr>,
        \<lparr>geometry = Some (Polygon east_half), bp_index = 1, split_area = Num 20\<rparr>] \<and>
   fragments_area (plain_geos [west_half, east_half])
       (slivers 20
          [\<lparr>geometry = Some (Polygon west_half), bp_index = 1, split_area = Num 20\<rparr>,
           \<lparr>geometry = Some (Polygon east_half), bp_index = 1, split_area = Num 20\<rparr>]
        @ bp_kept 20
          [\<lparr>geometry = Some (Polygon west_half), bp_index = 1, split_area = Num 20\<rparr>,
           \<lparr>geometry = Some (Polygon east_half), bp_index = 1, split_area = Num 20\<rparr>]) = 80 \<and>
   area (plain_geos [west_half, east_half])
       (Polygon ([(0, 0), (5, 0), (10, 0), (10, 4), (5, 4), (0, 4), (0, 0)], [])) = 40"
proof -
  have f: "FindIntersects (plain_geos [west_half, east_half]) [long_building] [cut_segment]
       bp_index seg_index
     = [\<lparr>geometry = Some (Polygon ([(0, 0), (5, 0), (10, 0), (10, 4), (5, 4), (0, 4), (0, 0)], [])),
         bp_index = 1, line_ints = [1]\<rparr>]"
    by (simp add: FindIntersects_def sjoin_def cells_intersect_def plain_geos_def
        share_vertex_def vertices_def long_building_def cut_segment_def
        bp_row.defs linked_row.defs)
  have c: "cut_buildings (plain_geos [west_half, east_half])
       [\<lparr>geometry = Some (Polygon ([(0, 0), (5, 0), (10, 0), (10, 4), (5, 4), (0, 4), (0, 0)], [])),
         bp_index = 1, line_ints = [1]\<rparr>] [cut_segment]
     = Inr [\<lparr>geometry = Some (Polygon west_half), bp_index = 1\<rparr>,
            \<lparr>geometry = Some (Polygon east_half), bp_index = 1\<rparr>]"
    by (simp add: cut_buildings_def ebind_def cut_row_def CutPolygon_def plain_geos_def
        explode_geometry_def explode_row_def bp_row.defs)
  have w: "ring_area (Polygon west_half) = 20" and e: "ring_area (Polygon east_half) = 20"
    by (simp_all add: ring_area_def shoelace_def west_half_def east_half_def)
  have a: "add_split_area (plain_geos [west_half, east_half])
       [\<lparr>geometry = Some (Polygon west_half), bp_index = 1\<rparr>,
        \<lparr>geometry = Some (Polygon east_half), bp_index = 1\<rparr>]
     = [\<lparr>geometry = Some (Polygon west_half), bp_index = 1, split_area = Num 20\<rparr>,
        \<lparr>geometry = Some (Polygon east_half), bp_index = 1, split_area = Num 20\<rparr>]"
    by (simp add: add_split_area_def cell_area_def bp_row.defs frag_row.defs
        round2_def plain_geos_def w e round_decimals_def round_half_even_def)
  have s: "fragments_area (plain_geos [west_half, east_half])
       (slivers 20
          [\<lparr>geometry = Some (Polygon west_half), bp_index = 1, split_area = Num 20\<rparr>,
           \<lparr>geometry = Some (Polygon east_half), bp_index = 1, split_area = Num 20\<rparr>]
        @ bp_kept 20
          [\<lparr>geometry = Some (Polygon west_half), bp_index = 1, split_area = Num 20\<rparr>,
           \<lparr>geometry = Some (Polygon east_half), bp_index = 1, split_area = Num 20\<rparr>]) = 80"
    by (simp add: slivers_def bp_kept_def float_le_def float_ge_def fragments_area_def
        plain_geos_def w e)
  have b: "area (plain_geos [west_half, east_half])
       (Polygon ([(0, 0), (5, 0), (10, 0), (10, 4), (5, 4), (0, 4), (0, 0)], [])) = 40"
    by (simp add: plain_geos_def ring_area_def shoelace_def)
  from f c a s b show ?thesis by blast
qed

end
